theory Spec2Isabelle
  imports Complex_Main
begin

section \<open>Connection pool (server/database.py, class SQLiteConnectionPool)\<close>

text \<open>
  The pool keeps a bounded queue of idle handles (\<^verbatim>\<open>Queue(maxsize=max_connections)\<close>),
  the counter \<^verbatim>\<open>_active_connections\<close> and the statistic \<^verbatim>\<open>total_connections\<close>.
  A handle is identified by a number. The other statistics (\<^verbatim>\<open>pool_size\<close>,
  \<^verbatim>\<open>retry_count\<close>, \<^verbatim>\<open>busy_errors\<close>) are write-only in the source and are left out.
\<close>

record pool =
  max_connections :: int
  idle :: "nat list"
  active_connections :: int
  total_connections :: int

text \<open>
  \<^verbatim>\<open>_initialize_pool\<close>: \<^verbatim>\<open>min(3, max_connections)\<close> calls of \<^verbatim>\<open>_create_connection\<close>, each
  of which either yields a handle or \<^verbatim>\<open>None\<close>; the handles go to the idle queue. The
  argument \<open>create\<close> gives the outcome of the i-th creation attempt.
\<close>

definition initialize_pool :: "int \<Rightarrow> (nat \<Rightarrow> nat option) \<Rightarrow> pool" where
  "initialize_pool m create =
     (let made = List.map_filter create [0..<nat (min 3 m)]
      in \<lparr>max_connections = m, idle = made, active_connections = 0,
          total_connections = int (length made)\<rparr>)"

text \<open>\<^verbatim>\<open>self._pool.get(timeout=0.1)\<close>: the head of the queue, or \<^verbatim>\<open>Empty\<close> (here \<open>None\<close>).\<close>

definition queue_get :: "pool \<Rightarrow> nat option \<times> pool" where
  "queue_get p = (case idle p of [] \<Rightarrow> (None, p) | c # cs \<Rightarrow> (Some c, p\<lparr>idle := cs\<rparr>))"

text \<open>The locked block after a successful \<^verbatim>\<open>get\<close>: the counter goes up, with no test.\<close>

definition locked_checkout :: "pool \<Rightarrow> pool" where
  "locked_checkout p = p\<lparr>active_connections := active_connections p + 1\<rparr>"

text \<open>
  The locked block after \<^verbatim>\<open>Empty\<close>: a handle is created only below the bound; \<open>created\<close>
  is what \<^verbatim>\<open>_create_connection\<close> returns when it is called.
\<close>

definition locked_create :: "nat option \<Rightarrow> pool \<Rightarrow> nat option \<times> pool" where
  "locked_create created p =
     (if active_connections p < max_connections p then
        (case created of
           Some c \<Rightarrow> (Some c, p\<lparr>active_connections := active_connections p + 1,
                                 total_connections := total_connections p + 1\<rparr>)
         | None \<Rightarrow> (None, p))
      else (None, p))"

datatype acquire_outcome =
    Acquired nat
  | ConnectionTimeoutError int int
  | Still_waiting

text \<open>
  \<^verbatim>\<open>_acquire_connection\<close> run on its own, with no other thread between its steps. Each
  element of the first argument describes one pass of the \<^verbatim>\<open>while True\<close> loop: what
  \<^verbatim>\<open>_create_connection\<close> would return, and whether \<^verbatim>\<open>elapsed >= self.timeout\<close> holds when
  the pass reaches the test. \<open>Still_waiting\<close> means the described passes are used up and the
  loop is still polling.
\<close>

fun acquire_connection :: "(nat option \<times> bool) list \<Rightarrow> pool \<Rightarrow> acquire_outcome \<times> pool" where
  "acquire_connection [] p = (Still_waiting, p)"
| "acquire_connection ((created, timed_out) # rest) p =
     (case queue_get p of
        (Some conn, p1) \<Rightarrow> (Acquired conn, locked_checkout p1)
      | (None, p1) \<Rightarrow>
          (case locked_create created p1 of
             (Some conn, p2) \<Rightarrow> (Acquired conn, p2)
           | (None, p2) \<Rightarrow>
               if timed_out
               then (ConnectionTimeoutError (active_connections p2) (max_connections p2), p2)
               else acquire_connection rest p2))"

text \<open>
  \<^verbatim>\<open>put_nowait\<close> raises \<^verbatim>\<open>Full\<close> when the queue has a positive \<^verbatim>\<open>maxsize\<close> and holds that
  many items; a \<^verbatim>\<open>maxsize\<close> of zero or less means an unbounded queue.
\<close>

definition queue_full :: "pool \<Rightarrow> bool" where
  "queue_full p = (0 < max_connections p \<and> max_connections p \<le> int (length (idle p)))"

datatype probe_result = Probe_ok | Probe_sqlite_error | Probe_other_error

text \<open>
  \<^verbatim>\<open>_release_connection\<close>. \<open>rollback_raises\<close> says whether \<^verbatim>\<open>conn.rollback()\<close> raises;
  \<open>probe\<close> is the outcome of \<^verbatim>\<open>conn.execute("SELECT 1")\<close>. The rollback stands before
  the locked block inside the same \<^verbatim>\<open>try\<close>, so an exception there goes straight to the
  outer handler, which closes the handle and returns. A probe that raises
  \<^verbatim>\<open>sqlite3.Error\<close> returns from inside the block; any other exception of the probe reaches
  the outer handler after the decrement.
\<close>

definition release_connection :: "bool \<Rightarrow> probe_result \<Rightarrow> nat \<Rightarrow> pool \<Rightarrow> pool" where
  "release_connection rollback_raises probe conn p =
     (if rollback_raises then p
      else
        let p1 = p\<lparr>active_connections := active_connections p - 1\<rparr> in
        (case probe of
           Probe_sqlite_error \<Rightarrow> p1
         | Probe_other_error \<Rightarrow> p1
         | Probe_ok \<Rightarrow> if queue_full p1 then p1 else p1\<lparr>idle := idle p1 @ [conn]\<rparr>))"

subsection \<open>Calls that run one after another\<close>

datatype pool_call =
    Acquire "(nat option \<times> bool) list"
  | Release bool probe_result nat

fun pool_call_step :: "pool \<Rightarrow> pool_call \<Rightarrow> pool" where
  "pool_call_step p (Acquire passes) = snd (acquire_connection passes p)"
| "pool_call_step p (Release rollback_raises probe conn) =
     release_connection rollback_raises probe conn p"

definition serial_calls :: "pool_call list \<Rightarrow> pool \<Rightarrow> pool" where
  "serial_calls calls p = foldl pool_call_step p calls"

subsection \<open>Threads that interleave\<close>

text \<open>
  The counter and the queue are shared. A thread inside \<^verbatim>\<open>_acquire_connection\<close> touches
  them in separate atomic steps: the queue operation \<^verbatim>\<open>get\<close> (under the queue's own
  mutex), then one \<^verbatim>\<open>with self._lock\<close> block. The program counter of a thread records
  which step is next. The timeout test and the sleep touch no shared state and are part of
  the step that precedes them. \<^verbatim>\<open>_release_connection\<close> touches the shared state in one
  locked block.
\<close>

datatype thread_pc =
    Not_acquiring
  | At_get
  | After_get nat
  | After_empty
  | Holding nat
  | Timed_out

datatype action =
    Call_acquire
  | Advance "nat option" bool
  | Call_release bool probe_result

fun thread_step :: "action \<Rightarrow> thread_pc \<Rightarrow> pool \<Rightarrow> thread_pc \<times> pool" where
  "thread_step Call_acquire Not_acquiring p = (At_get, p)"
| "thread_step (Advance created timed_out) At_get p =
     (case queue_get p of
        (Some conn, p1) \<Rightarrow> (After_get conn, p1)
      | (None, p1) \<Rightarrow> (After_empty, p1))"
| "thread_step (Advance created timed_out) (After_get conn) p = (Holding conn, locked_checkout p)"
| "thread_step (Advance created timed_out) After_empty p =
     (case locked_create created p of
        (Some conn, p2) \<Rightarrow> (Holding conn, p2)
      | (None, p2) \<Rightarrow> if timed_out then (Timed_out, p2) else (At_get, p2))"
| "thread_step (Call_release rollback_raises probe) (Holding conn) p =
     (Not_acquiring, release_connection rollback_raises probe conn p)"
| "thread_step a pc p = (pc, p)"

record system =
  shared :: pool
  pcs :: "nat \<Rightarrow> thread_pc"

definition system_step :: "system \<Rightarrow> nat \<times> action \<Rightarrow> system" where
  "system_step s ev =
     (case thread_step (snd ev) (pcs s (fst ev)) (shared s) of
        (pc', p') \<Rightarrow> \<lparr>shared = p', pcs = (pcs s)(fst ev := pc')\<rparr>)"

definition run_schedule :: "(nat \<times> action) list \<Rightarrow> system \<Rightarrow> system" where
  "run_schedule evs s = foldl system_step s evs"

definition start_system :: "int \<Rightarrow> (nat \<Rightarrow> nat option) \<Rightarrow> system" where
  "start_system m create = \<lparr>shared = initialize_pool m create, pcs = (\<lambda>t. Not_acquiring)\<rparr>"

text \<open>
  Three threads and a pool of one handle: thread 0 checks the handle out; thread 1 finds
  the queue empty; thread 0 gives the handle back; thread 1 then passes the capacity test
  and creates handle 1; thread 2 takes handle 0 from the queue.
\<close>

definition race_schedule :: "(nat \<times> action) list" where
  "race_schedule =
     [(0, Call_acquire), (0, Advance None False), (0, Advance None False),
      (1, Call_acquire), (1, Advance None False),
      (0, Call_release False Probe_ok),
      (1, Advance (Some 1) False),
      (2, Call_acquire), (2, Advance None False), (2, Advance None False)]"

section \<open>Statement retry (execute_with_retry)\<close>

text \<open>
  One attempt is the block \<^verbatim>\<open>with self.get_connection() as conn: ...\<close>: it returns a
  value, raises \<^verbatim>\<open>DatabaseBusyError\<close>, or raises something else (identified by a number).
\<close>

datatype 'a attempt_outcome = Completed 'a | Busy_raised | Other_raised nat

datatype 'a retry_result =
    Returns 'a
  | Returns_None
  | Raises_DatabaseBusyError
  | Raises_other nat

text \<open>
  The \<^verbatim>\<open>for attempt in range(retry_attempts)\<close> loop, from pass \<open>attempt\<close> on. \<open>op i\<close> is the
  outcome of the i-th attempt, \<open>slept\<close> collects the arguments of \<^verbatim>\<open>time.sleep\<close> in order,
  \<open>last_error\<close> says whether \<^verbatim>\<open>last_error\<close> is set. The result also counts the attempts
  that were made.
\<close>

function retry_loop ::
  "(nat \<Rightarrow> 'a attempt_outcome) \<Rightarrow> real \<Rightarrow> int \<Rightarrow> nat \<Rightarrow> real list \<Rightarrow> bool
     \<Rightarrow> 'a retry_result \<times> real list \<times> nat" where
  "retry_loop op retry_delay retry_attempts attempt slept last_error =
     (if int attempt < retry_attempts then
        (case op attempt of
           Completed v \<Rightarrow> (Returns v, slept, attempt + 1)
         | Busy_raised \<Rightarrow>
             if int attempt < retry_attempts - 1
             then retry_loop op retry_delay retry_attempts (attempt + 1)
                    (slept @ [retry_delay * 2 ^ attempt]) True
             else (Raises_DatabaseBusyError, slept, attempt + 1)
         | Other_raised e \<Rightarrow> (Raises_other e, slept, attempt + 1))
      else if last_error then (Raises_DatabaseBusyError, slept, attempt)
      else (Returns_None, slept, attempt))"
  by pat_completeness auto
termination
  by (relation "measure (\<lambda>(op, d, n, a, s, l). nat (n - int a))") auto

declare retry_loop.simps [simp del]

definition execute_with_retry ::
  "(nat \<Rightarrow> 'a attempt_outcome) \<Rightarrow> real \<Rightarrow> int \<Rightarrow> 'a retry_result \<times> real list \<times> nat" where
  "execute_with_retry op retry_delay retry_attempts =
     retry_loop op retry_delay retry_attempts 0 [] False"

section \<open>The store as the routers see it\<close>

text \<open>
  Tables are lists of rows in the engine's scan order; \<^verbatim>\<open>fetchone()\<close> is the first row
  that satisfies the \<^verbatim>\<open>WHERE\<close> clause. Only the columns that the modelled handlers read
  or write are kept, and the \<^verbatim>\<open>created_at\<close>/\<^verbatim>\<open>updated_at\<close> stamps are left out.
  \<^verbatim>\<open>stock\<close> and \<^verbatim>\<open>quantity\<close> are \<^verbatim>\<open>REAL\<close> columns, read here as real numbers (rounding
  of floating point is not modelled); \<^verbatim>\<open>version\<close> is a nullable \<^verbatim>\<open>INTEGER\<close>.
\<close>

datatype product_unit = Jin | Gongjin | Dai

record product =
  p_id :: int
  p_userId :: int
  p_workspaceId :: "int option"
  p_name :: string
  p_description :: "string option"
  p_stock :: real
  p_unit :: product_unit
  p_supplierId :: "int option"
  p_version :: "int option"

record purchase =
  pu_id :: int
  pu_userId :: int
  pu_workspaceId :: "int option"
  pu_productName :: string
  pu_quantity :: real
  pu_purchaseDate :: "string option"
  pu_supplierId :: "int option"
  pu_totalPurchasePrice :: "real option"
  pu_note :: "string option"

record sale =
  sa_id :: int
  sa_userId :: int
  sa_workspaceId :: "int option"
  sa_productName :: string
  sa_quantity :: real
  sa_customerId :: "int option"
  sa_saleDate :: "string option"
  sa_totalSalePrice :: "real option"
  sa_note :: "string option"

text \<open>A row of \<^verbatim>\<open>suppliers\<close> or of \<^verbatim>\<open>customers\<close>.\<close>

record party =
  pa_id :: int
  pa_userId :: int
  pa_workspaceId :: "int option"

record database =
  products :: "product list"
  purchases :: "purchase list"
  sales :: "sale list"
  suppliers :: "party list"
  customers :: "party list"

text \<open>
  A pooled handle. \<open>committed\<close> is the content of the database file, \<open>working\<close> is what
  the handle's statements see (the file plus the handle's open transaction),
  \<open>total_changes\<close> is sqlite3's \<^verbatim>\<open>Connection.total_changes\<close>: the number of rows
  modified, inserted or deleted since the handle was opened. \<open>rowcounts\<close> records, for
  each write the handle executed, which write it was and the \<^verbatim>\<open>cursor.rowcount\<close> it
  reported; it is bookkeeping of the model and no handler reads it.
\<close>

datatype write_tag = Ledger_row | Old_product_stock | Product_stock | Product_row | Ledger_delete

record connection =
  committed :: database
  working :: database
  total_changes :: nat
  rowcounts :: "(write_tag \<times> nat) list"

definition commit :: "connection \<Rightarrow> connection" where
  "commit c = c\<lparr>committed := working c\<rparr>"

definition rollback :: "connection \<Rightarrow> connection" where
  "rollback c = c\<lparr>working := committed c\<rparr>"

text \<open>
  A handler's leading \<^verbatim>\<open>SELECT\<close>s run outside any transaction (the sqlite3 module opens
  one only before the first \<^verbatim>\<open>UPDATE\<close>/\<^verbatim>\<open>DELETE\<close>), so transactions of other handles can
  commit between those reads and the handler's first write. \<open>other_writers f\<close> applies
  what they committed; a handler that runs alone has \<open>f = id\<close>.
\<close>

definition other_writers :: "(database \<Rightarrow> database) \<Rightarrow> connection \<Rightarrow> connection" where
  "other_writers f c = c\<lparr>committed := f (committed c), working := f (working c)\<rparr>"

datatype detail =
    No_workspace_access
  | Workspace_not_found
  | Local_workspace
  | No_permission
  | Record_not_found
  | Version_mismatch
  | Insufficient_stock
  | Stock_modified
  | Old_stock_modified
  | Product_missing
  | Name_exists
  | Supplier_invalid
  | Customer_invalid
  | No_fields
  | Server_error

datatype http_exception = HTTPException nat detail

text \<open>
  \<^verbatim>\<open>with pool.get_connection() as conn\<close>: commit when the body returns, roll back when
  it raises. (Acquiring and releasing the handle is the pool's part, above.) Failures of
  the engine itself (a locked database file, an I/O error) are not part of this section:
  every statement is executed, and the only exceptions are those the handlers raise and
  the ones named in the text of each handler.
\<close>

definition get_connection ::
  "(connection \<Rightarrow> (http_exception + 'a) \<times> connection) \<Rightarrow> connection
     \<Rightarrow> (http_exception + 'a) \<times> connection" where
  "get_connection body c =
     (case body c of
        (Inr v, c1) \<Rightarrow> (Inr v, commit c1)
      | (Inl e, c1) \<Rightarrow> (Inl e, rollback c1))"

subsection \<open>Workspace checks (server/middleware/workspace_permission.py)\<close>

datatype role = Owner | Admin | Editor | Viewer

datatype permission = Read | Create | Update | Delete | Manage_members | Manage_settings

datatype storage_type = Local | Server

text \<open>
  The three queries behind the checks run on handles of their own; their answers are
  taken as given: \<^verbatim>\<open>check_workspace_access\<close>, \<^verbatim>\<open>get_workspace_role\<close> and
  \<^verbatim>\<open>get_workspace_storage_type\<close>, by workspace id and user id.
\<close>

record workspace_env =
  check_workspace_access :: "int \<Rightarrow> int \<Rightarrow> bool"
  get_workspace_role :: "int \<Rightarrow> int \<Rightarrow> role option"
  get_workspace_storage_type :: "int \<Rightarrow> storage_type option"

fun PERMISSIONS :: "role \<Rightarrow> permission \<Rightarrow> bool" where
  "PERMISSIONS Owner perm = True"
| "PERMISSIONS Admin perm = (perm \<noteq> Manage_settings)"
| "PERMISSIONS Editor perm = (perm = Read \<or> perm = Create \<or> perm = Update)"
| "PERMISSIONS Viewer perm = (perm = Read)"

definition require_server_storage :: "workspace_env \<Rightarrow> int \<Rightarrow> int \<Rightarrow> http_exception option" where
  "require_server_storage env workspace_id user_id =
     (if \<not> check_workspace_access env workspace_id user_id
      then Some (HTTPException 403 No_workspace_access)
      else (case get_workspace_storage_type env workspace_id of
              None \<Rightarrow> Some (HTTPException 404 Workspace_not_found)
            | Some Local \<Rightarrow> Some (HTTPException 400 Local_workspace)
            | Some Server \<Rightarrow> None))"

definition check_workspace_permission ::
  "workspace_env \<Rightarrow> int \<Rightarrow> int \<Rightarrow> permission \<Rightarrow> http_exception + bool" where
  "check_workspace_permission env workspace_id user_id perm =
     (if \<not> check_workspace_access env workspace_id user_id
      then Inl (HTTPException 403 No_workspace_access)
      else (case get_workspace_role env workspace_id user_id of
              None \<Rightarrow> Inl (HTTPException 403 No_workspace_access)
            | Some r \<Rightarrow> Inr (PERMISSIONS r perm)))"

text \<open>
  The opening of every handler: with an \<^verbatim>\<open>X-Workspace-ID\<close> header the two checks run and
  a missing permission is a 403; without the header nothing is checked. \<open>None\<close> means the
  handler goes on.
\<close>

definition workspace_gate ::
  "workspace_env \<Rightarrow> int option \<Rightarrow> int \<Rightarrow> permission \<Rightarrow> http_exception option" where
  "workspace_gate env workspace_id user_id perm =
     (case workspace_id of
        None \<Rightarrow> None
      | Some w \<Rightarrow>
          (case require_server_storage env w user_id of
             Some e \<Rightarrow> Some e
           | None \<Rightarrow>
               (case check_workspace_permission env w user_id perm of
                  Inl e \<Rightarrow> Some e
                | Inr allowed \<Rightarrow> if allowed then None else Some (HTTPException 403 No_permission))))"

subsection \<open>Queries and writes shared by the handlers\<close>

text \<open>\<^verbatim>\<open>workspaceId = ?\<close> with the header, \<^verbatim>\<open>userId = ?\<close> without it.\<close>

definition scope :: "int option \<Rightarrow> int \<Rightarrow> int option \<Rightarrow> int \<Rightarrow> bool" where
  "scope workspace_id user_id row_workspaceId row_userId =
     (case workspace_id of
        Some w \<Rightarrow> row_workspaceId = Some w
      | None \<Rightarrow> row_userId = user_id)"

definition select_product_by_id :: "database \<Rightarrow> int option \<Rightarrow> int \<Rightarrow> int \<Rightarrow> product option" where
  "select_product_by_id db workspace_id user_id product_id =
     find (\<lambda>r. p_id r = product_id \<and> scope workspace_id user_id (p_workspaceId r) (p_userId r))
       (products db)"

definition select_product_by_name ::
  "database \<Rightarrow> int option \<Rightarrow> int \<Rightarrow> string \<Rightarrow> product option" where
  "select_product_by_name db workspace_id user_id name =
     find (\<lambda>r. scope workspace_id user_id (p_workspaceId r) (p_userId r) \<and> p_name r = name)
       (products db)"

text \<open>
  \<^verbatim>\<open>WHERE id = ? AND workspaceId = ? AND version = ?\<close>, or with \<^verbatim>\<open>userId = ?\<close> in the
  middle. In SQL \<^verbatim>\<open>version = ?\<close> holds only when both sides are non-null and equal.
\<close>

definition stock_where :: "int \<Rightarrow> int option \<Rightarrow> int \<Rightarrow> int option \<Rightarrow> product \<Rightarrow> bool" where
  "stock_where product_id workspace_id user_id version r =
     (p_id r = product_id \<and> scope workspace_id user_id (p_workspaceId r) (p_userId r)
      \<and> version \<noteq> None \<and> p_version r = version)"

text \<open>
  \<^verbatim>\<open>UPDATE products SET stock = ?, version = version + 1, ... WHERE ...\<close>; the result is
  the cursor's \<^verbatim>\<open>rowcount\<close> and the handle after the statement.
\<close>

definition update_products_stock ::
  "write_tag \<Rightarrow> (product \<Rightarrow> bool) \<Rightarrow> real \<Rightarrow> connection \<Rightarrow> nat \<times> connection" where
  "update_products_stock tag wh new_stock c =
     (let n = length (filter wh (products (working c)));
          rows = map (\<lambda>r. if wh r
                           then r\<lparr>p_stock := new_stock,
                                  p_version := map_option (\<lambda>v. v + 1) (p_version r)\<rparr>
                           else r) (products (working c))
      in (n, c\<lparr>working := (working c)\<lparr>products := rows\<rparr>,
               total_changes := total_changes c + n,
               rowcounts := rowcounts c @ [(tag, n)]\<rparr>))"

text \<open>\<^verbatim>\<open>row[i] if row[i] else 1\<close> on the version column: \<^verbatim>\<open>NULL\<close> and 0 read as 1.\<close>

definition version_or_1 :: "int option \<Rightarrow> int" where
  "version_or_1 v = (case v of None \<Rightarrow> 1 | Some n \<Rightarrow> if n \<noteq> 0 then n else 1)"

text \<open>Python's truth value of an optional string: neither \<^verbatim>\<open>None\<close> nor empty.\<close>

definition truthy :: "string option \<Rightarrow> bool" where
  "truthy s = (case s of None \<Rightarrow> False | Some v \<Rightarrow> v \<noteq> [])"

section \<open>Product handlers (server/routers/products.py)\<close>

record product_stock_update =
  su_quantity :: real
  su_version :: int

text \<open>
  The body of \<^verbatim>\<open>update_product_stock\<close> inside the \<^verbatim>\<open>with\<close> block. The row is read and
  the request's version is compared with it; the new stock is computed and tested; then
  the guarded \<^verbatim>\<open>UPDATE\<close> runs and the handler looks at \<^verbatim>\<open>conn.total_changes\<close>. The final
  \<^verbatim>\<open>SELECT ... WHERE id = ?\<close> builds the response; indexing a missing row raises, which
  the handler turns into a 500.
\<close>

definition update_product_stock_body ::
  "workspace_env \<Rightarrow> int option \<Rightarrow> int \<Rightarrow> int \<Rightarrow> product_stock_update \<Rightarrow> (database \<Rightarrow> database)
     \<Rightarrow> connection \<Rightarrow> (http_exception + product) \<times> connection" where
  "update_product_stock_body env workspace_id user_id product_id stock_data other c =
     (case workspace_gate env workspace_id user_id Update of
        Some e \<Rightarrow> (Inl e, c)
      | None \<Rightarrow>
     (case select_product_by_id (working c) workspace_id user_id product_id of
        None \<Rightarrow> (Inl (HTTPException 404 Record_not_found), c)
      | Some row \<Rightarrow>
          let current_stock = p_stock row;
              current_version = version_or_1 (p_version row)
          in
          if su_version stock_data \<noteq> current_version
          then (Inl (HTTPException 409 Version_mismatch), c)
          else
            let new_stock = current_stock + su_quantity stock_data in
            if new_stock < 0 then (Inl (HTTPException 400 Insufficient_stock), c)
            else
              (case update_products_stock Product_stock
                      (stock_where product_id workspace_id user_id (Some current_version))
                      new_stock (other_writers other c) of
                 (rowcount, c1) \<Rightarrow>
                   if total_changes c1 = 0 then (Inl (HTTPException 409 Stock_modified), c1)
                   else
                     let c2 = commit c1 in
                     (case find (\<lambda>r. p_id r = product_id) (products (working c2)) of
                        None \<Rightarrow> (Inl (HTTPException 500 Server_error), c2)
                      | Some r \<Rightarrow> (Inr (r\<lparr>p_version := Some (version_or_1 (p_version r))\<rparr>), c2)))))"

definition update_product_stock ::
  "workspace_env \<Rightarrow> int option \<Rightarrow> int \<Rightarrow> int \<Rightarrow> product_stock_update \<Rightarrow> (database \<Rightarrow> database)
     \<Rightarrow> connection \<Rightarrow> (http_exception + product) \<times> connection" where
  "update_product_stock env workspace_id user_id product_id stock_data other =
     get_connection (update_product_stock_body env workspace_id user_id product_id stock_data other)"

record product_update =
  pd_name :: "string option"
  pd_description :: "string option"
  pd_stock :: "real option"
  pd_unit :: "product_unit option"
  pd_supplierId :: "int option"
  pd_version :: "int option"

text \<open>The \<^verbatim>\<open>SET\<close> list that \<^verbatim>\<open>update_product\<close> builds, applied to one row.\<close>

definition set_product_fields :: "product_update \<Rightarrow> product \<Rightarrow> product" where
  "set_product_fields d r =
     r\<lparr>p_name := (case pd_name d of Some n \<Rightarrow> n | None \<Rightarrow> p_name r),
       p_description := (case pd_description d of Some x \<Rightarrow> Some x | None \<Rightarrow> p_description r),
       p_stock := (case pd_stock d of Some s \<Rightarrow> s | None \<Rightarrow> p_stock r),
       p_unit := (case pd_unit d of Some u \<Rightarrow> u | None \<Rightarrow> p_unit r),
       p_supplierId := (case pd_supplierId d of
                          Some i \<Rightarrow> (if i \<noteq> 0 then Some i else None)
                        | None \<Rightarrow> p_supplierId r),
       p_version := map_option (\<lambda>v. v + 1) (p_version r)\<rparr>"

definition no_product_fields :: "product_update \<Rightarrow> bool" where
  "no_product_fields d =
     (pd_name d = None \<and> pd_description d = None \<and> pd_stock d = None \<and> pd_unit d = None
      \<and> pd_supplierId d = None)"

text \<open>
  The table's \<^verbatim>\<open>UNIQUE(workspaceId, name)\<close>: the statement fails when a row it renames
  would share a non-null workspace and its name with a row of another id.
\<close>

definition unique_violation :: "(product \<Rightarrow> bool) \<Rightarrow> string option \<Rightarrow> product list \<Rightarrow> bool" where
  "unique_violation wh new_name rows =
     (case new_name of
        None \<Rightarrow> False
      | Some n \<Rightarrow>
          list_ex (\<lambda>r. wh r \<and> p_workspaceId r \<noteq> None
                       \<and> list_ex (\<lambda>r2. p_id r2 \<noteq> p_id r \<and> p_workspaceId r2 = p_workspaceId r
                                        \<and> p_name r2 = n) rows) rows)"

text \<open>
  \<^verbatim>\<open>UPDATE products SET ..., version = version + 1 WHERE id = ? AND workspaceId = ?\<close> (or
  \<^verbatim>\<open>userId = ?\<close>): the \<^verbatim>\<open>WHERE\<close> clause names the row and its scope, nothing else.
\<close>

definition update_products_row ::
  "int \<Rightarrow> int option \<Rightarrow> int \<Rightarrow> product_update \<Rightarrow> connection \<Rightarrow> nat \<times> connection" where
  "update_products_row product_id workspace_id user_id d c =
     (let wh = (\<lambda>r. p_id r = product_id \<and> scope workspace_id user_id (p_workspaceId r) (p_userId r));
          n = length (filter wh (products (working c)));
          rows = map (\<lambda>r. if wh r then set_product_fields d r else r) (products (working c))
      in (n, c\<lparr>working := (working c)\<lparr>products := rows\<rparr>,
               total_changes := total_changes c + n,
               rowcounts := rowcounts c @ [(Product_row, n)]\<rparr>))"

text \<open>
  The checks of \<^verbatim>\<open>update_product\<close> after the version comparison (lines 507-560): a new
  name must not be taken by another product of the user, a new supplier must be one of the
  user's, and the request must set some field. \<open>None\<close> means all of them pass.
\<close>

definition update_product_checks ::
  "int \<Rightarrow> int \<Rightarrow> product_update \<Rightarrow> product \<Rightarrow> database \<Rightarrow> http_exception option" where
  "update_product_checks user_id product_id product_data row db =
     (if truthy (pd_name product_data) \<and> pd_name product_data \<noteq> Some (p_name row)
         \<and> list_ex (\<lambda>r. p_userId r = user_id \<and> Some (p_name r) = pd_name product_data
                         \<and> p_id r \<noteq> product_id) (products db)
      then Some (HTTPException 400 Name_exists)
      else if pd_supplierId product_data \<noteq> None
              \<and> pd_supplierId product_data \<noteq> p_supplierId row
              \<and> pd_supplierId product_data \<noteq> Some 0
              \<and> \<not> list_ex (\<lambda>s. Some (pa_id s) = pd_supplierId product_data
                                \<and> pa_userId s = user_id) (suppliers db)
      then Some (HTTPException 400 Supplier_invalid)
      else if no_product_fields product_data
      then Some (HTTPException 400 No_fields)
      else None)"

text \<open>
  The body of \<^verbatim>\<open>update_product\<close>. The version of the request is compared with the row
  that was read only when the request carries one. A statement that breaks the table's
  uniqueness constraint raises, which the handler turns into a 500.
\<close>

definition update_product_body ::
  "workspace_env \<Rightarrow> int option \<Rightarrow> int \<Rightarrow> int \<Rightarrow> product_update \<Rightarrow> (database \<Rightarrow> database)
     \<Rightarrow> connection \<Rightarrow> (http_exception + product) \<times> connection" where
  "update_product_body env workspace_id user_id product_id product_data other c =
     (case workspace_gate env workspace_id user_id Update of
        Some e \<Rightarrow> (Inl e, c)
      | None \<Rightarrow>
     (case select_product_by_id (working c) workspace_id user_id product_id of
        None \<Rightarrow> (Inl (HTTPException 404 Record_not_found), c)
      | Some row \<Rightarrow>
          let current_version = version_or_1 (p_version row) in
          if pd_version product_data \<noteq> None \<and> pd_version product_data \<noteq> Some current_version
          then (Inl (HTTPException 409 Version_mismatch), c)
          else
            (case update_product_checks user_id product_id product_data row (working c) of
               Some e \<Rightarrow> (Inl e, c)
             | None \<Rightarrow>
                 let c0 = other_writers other c in
                 if unique_violation
                      (\<lambda>r. p_id r = product_id
                            \<and> scope workspace_id user_id (p_workspaceId r) (p_userId r))
                      (pd_name product_data) (products (working c0))
                 then (Inl (HTTPException 500 Server_error), c0)
                 else
                   (case update_products_row product_id workspace_id user_id product_data c0 of
                      (rowcount, c1) \<Rightarrow>
                        let c2 = commit c1 in
                        (case find (\<lambda>r. p_id r = product_id) (products (working c2)) of
                           None \<Rightarrow> (Inl (HTTPException 500 Server_error), c2)
                         | Some r \<Rightarrow>
                             (Inr (r\<lparr>p_version := Some (version_or_1 (p_version r))\<rparr>), c2))))))"

definition update_product ::
  "workspace_env \<Rightarrow> int option \<Rightarrow> int \<Rightarrow> int \<Rightarrow> product_update \<Rightarrow> (database \<Rightarrow> database)
     \<Rightarrow> connection \<Rightarrow> (http_exception + product) \<times> connection" where
  "update_product env workspace_id user_id product_id product_data other =
     get_connection (update_product_body env workspace_id user_id product_id product_data other)"

section \<open>Purchase handlers (server/routers/purchases.py)\<close>

record purchase_update =
  ud_productName :: "string option"
  ud_quantity :: "real option"
  ud_purchaseDate :: "string option"
  ud_supplierId :: "int option"
  ud_totalPurchasePrice :: "real option"
  ud_note :: "string option"

definition select_purchase :: "database \<Rightarrow> int option \<Rightarrow> int \<Rightarrow> int \<Rightarrow> purchase option" where
  "select_purchase db workspace_id user_id purchase_id =
     find (\<lambda>r. pu_id r = purchase_id \<and> scope workspace_id user_id (pu_workspaceId r) (pu_userId r))
       (purchases db)"

definition no_purchase_fields :: "purchase_update \<Rightarrow> bool" where
  "no_purchase_fields d =
     (ud_productName d = None \<and> ud_quantity d = None \<and> ud_purchaseDate d = None
      \<and> ud_supplierId d = None \<and> ud_totalPurchasePrice d = None \<and> ud_note d = None)"

text \<open>The \<^verbatim>\<open>SET\<close> list of \<^verbatim>\<open>update_purchase\<close>; a supplier id of 0 is stored as \<^verbatim>\<open>NULL\<close>.\<close>

definition set_purchase_fields :: "purchase_update \<Rightarrow> purchase \<Rightarrow> purchase" where
  "set_purchase_fields d r =
     r\<lparr>pu_productName := (case ud_productName d of Some n \<Rightarrow> n | None \<Rightarrow> pu_productName r),
       pu_quantity := (case ud_quantity d of Some q \<Rightarrow> q | None \<Rightarrow> pu_quantity r),
       pu_purchaseDate := (case ud_purchaseDate d of Some x \<Rightarrow> Some x | None \<Rightarrow> pu_purchaseDate r),
       pu_supplierId := (case ud_supplierId d of
                           Some i \<Rightarrow> (if i \<noteq> 0 then Some i else None)
                         | None \<Rightarrow> pu_supplierId r),
       pu_totalPurchasePrice := (case ud_totalPurchasePrice d of
                                   Some x \<Rightarrow> Some x
                                 | None \<Rightarrow> pu_totalPurchasePrice r),
       pu_note := (case ud_note d of Some x \<Rightarrow> Some x | None \<Rightarrow> pu_note r)\<rparr>"

definition update_purchases_row ::
  "int \<Rightarrow> int option \<Rightarrow> int \<Rightarrow> purchase_update \<Rightarrow> connection \<Rightarrow> nat \<times> connection" where
  "update_purchases_row purchase_id workspace_id user_id d c =
     (let wh = (\<lambda>r. pu_id r = purchase_id
                     \<and> scope workspace_id user_id (pu_workspaceId r) (pu_userId r));
          n = length (filter wh (purchases (working c)));
          rows = map (\<lambda>r. if wh r then set_purchase_fields d r else r) (purchases (working c))
      in (n, c\<lparr>working := (working c)\<lparr>purchases := rows\<rparr>,
               total_changes := total_changes c + n,
               rowcounts := rowcounts c @ [(Ledger_row, n)]\<rparr>))"

text \<open>
  Lines 762-806 of \<^verbatim>\<open>update_purchase\<close>: the purchase moves to another product, so the old
  product gives the purchased quantity back. The old product is read again inside the
  transaction and written under its version. \<open>None\<close> means no exception.
\<close>

definition purchase_restore_old_product ::
  "int option \<Rightarrow> int \<Rightarrow> string \<Rightarrow> real \<Rightarrow> connection \<Rightarrow> http_exception option \<times> connection" where
  "purchase_restore_old_product workspace_id user_id old_product_name old_quantity c =
     (case select_product_by_name (working c) workspace_id user_id old_product_name of
        None \<Rightarrow> (None, c)
      | Some old_product \<Rightarrow>
          let old_new_stock = p_stock old_product - old_quantity in
          if old_new_stock < 0 then (Some (HTTPException 400 Insufficient_stock), c)
          else
            (case update_products_stock Old_product_stock
                    (stock_where (p_id old_product) workspace_id user_id (p_version old_product))
                    old_new_stock c of
               (rowcount, c1) \<Rightarrow>
                 if rowcount = 0 then (Some (HTTPException 409 Old_stock_modified), c1)
                 else (None, c1)))"

text \<open>
  The \<^verbatim>\<open>try\<close> block of \<^verbatim>\<open>update_purchase\<close> up to \<^verbatim>\<open>conn.commit()\<close>. The last write names the
  product by \<^verbatim>\<open>id = ? AND userId = ? AND version = ?\<close> whether or not the request carries a
  workspace id.
\<close>

definition update_purchase_writes ::
  "int option \<Rightarrow> int \<Rightarrow> int \<Rightarrow> purchase_update \<Rightarrow> (database \<Rightarrow> database) \<Rightarrow> bool \<Rightarrow> string
     \<Rightarrow> real \<Rightarrow> real \<Rightarrow> product \<Rightarrow> connection \<Rightarrow> http_exception option \<times> connection" where
  "update_purchase_writes workspace_id user_id purchase_id purchase_data other product_changed
       old_product_name old_quantity new_quantity new_product c =
     (if no_purchase_fields purchase_data then (Some (HTTPException 400 No_fields), c)
      else
        (case update_purchases_row purchase_id workspace_id user_id purchase_data
                (other_writers other c) of
           (n, c1) \<Rightarrow>
             let quantity_diff = new_quantity - old_quantity;
                 quantity_changed = (quantity_diff \<noteq> 0)
             in
             if product_changed \<or> quantity_changed then
               (case (if product_changed
                      then purchase_restore_old_product workspace_id user_id old_product_name
                             old_quantity c1
                      else (None, c1)) of
                  (Some e, c2) \<Rightarrow> (Some e, c2)
                | (None, c2) \<Rightarrow>
                    let new_stock = (if product_changed then p_stock new_product + new_quantity
                                     else p_stock new_product + quantity_diff)
                    in
                    if new_stock < 0 then (Some (HTTPException 400 Insufficient_stock), c2)
                    else
                      (case update_products_stock Product_stock
                              (stock_where (p_id new_product) None user_id (p_version new_product))
                              new_stock c2 of
                         (rowcount, c3) \<Rightarrow>
                           if rowcount = 0 then (Some (HTTPException 409 Stock_modified), c3)
                           else (None, c3)))
             else (None, c1)))"

text \<open>
  The checks of \<^verbatim>\<open>update_purchase\<close> between reading the product and the \<^verbatim>\<open>try\<close> block
  (lines 636-698). \<open>None\<close> means all of them pass.
\<close>

definition update_purchase_checks ::
  "int option \<Rightarrow> int \<Rightarrow> purchase_update \<Rightarrow> bool \<Rightarrow> string \<Rightarrow> real \<Rightarrow> real \<Rightarrow> product
     \<Rightarrow> database \<Rightarrow> http_exception option" where
  "update_purchase_checks workspace_id user_id purchase_data product_changed old_product_name
       old_quantity new_quantity new_product db =
     (let current_stock = p_stock new_product;
          quantity_diff = new_quantity - old_quantity
      in
      if product_changed
           \<and> (case select_product_by_name db workspace_id user_id old_product_name of
                 Some old_product \<Rightarrow> p_stock old_product < old_quantity
               | None \<Rightarrow> False)
      then Some (HTTPException 400 Insufficient_stock)
      else if product_changed \<and> new_quantity < 0 \<and> current_stock < \<bar>new_quantity\<bar>
      then Some (HTTPException 400 Insufficient_stock)
      else if \<not> product_changed \<and> quantity_diff < 0 \<and> current_stock < \<bar>quantity_diff\<bar>
      then Some (HTTPException 400 Insufficient_stock)
      else if ud_supplierId purchase_data \<noteq> None \<and> ud_supplierId purchase_data \<noteq> Some 0
              \<and> \<not> list_ex (\<lambda>s. Some (pa_id s) = ud_supplierId purchase_data
                                \<and> scope workspace_id user_id (pa_workspaceId s) (pa_userId s))
                     (suppliers db)
      then Some (HTTPException 400 Supplier_invalid)
      else None)"

definition update_purchase_body ::
  "workspace_env \<Rightarrow> int option \<Rightarrow> int \<Rightarrow> int \<Rightarrow> purchase_update \<Rightarrow> (database \<Rightarrow> database)
     \<Rightarrow> connection \<Rightarrow> (http_exception + purchase) \<times> connection" where
  "update_purchase_body env workspace_id user_id purchase_id purchase_data other c =
     (case workspace_gate env workspace_id user_id Update of
        Some e \<Rightarrow> (Inl e, c)
      | None \<Rightarrow>
     (case select_purchase (working c) workspace_id user_id purchase_id of
        None \<Rightarrow> (Inl (HTTPException 404 Record_not_found), c)
      | Some row \<Rightarrow>
          let old_quantity = pu_quantity row;
              old_product_name = pu_productName row;
              new_quantity = (case ud_quantity purchase_data of Some q \<Rightarrow> q | None \<Rightarrow> old_quantity);
              product_changed = (truthy (ud_productName purchase_data)
                                 \<and> ud_productName purchase_data \<noteq> Some old_product_name);
              new_product_name = (if product_changed
                                  then (case ud_productName purchase_data of
                                          Some n \<Rightarrow> n | None \<Rightarrow> old_product_name)
                                  else old_product_name)
          in
          (case select_product_by_name (working c) workspace_id user_id new_product_name of
             None \<Rightarrow> (Inl (HTTPException 400 Product_missing), c)
           | Some new_product \<Rightarrow>
               (case update_purchase_checks workspace_id user_id purchase_data product_changed
                       old_product_name old_quantity new_quantity new_product (working c) of
                  Some e \<Rightarrow> (Inl e, c)
                | None \<Rightarrow>
                    (case update_purchase_writes workspace_id user_id purchase_id purchase_data
                            other product_changed old_product_name old_quantity new_quantity
                            new_product c of
                       (Some e, c1) \<Rightarrow> (Inl e, rollback c1)
                     | (None, c1) \<Rightarrow>
                         let c2 = commit c1 in
                         (case find (\<lambda>r. pu_id r = purchase_id) (purchases (working c2)) of
                            None \<Rightarrow> (Inl (HTTPException 500 Server_error), c2)
                          | Some r \<Rightarrow> (Inr r, c2)))))))"

definition update_purchase ::
  "workspace_env \<Rightarrow> int option \<Rightarrow> int \<Rightarrow> int \<Rightarrow> purchase_update \<Rightarrow> (database \<Rightarrow> database)
     \<Rightarrow> connection \<Rightarrow> (http_exception + purchase) \<times> connection" where
  "update_purchase env workspace_id user_id purchase_id purchase_data other =
     get_connection (update_purchase_body env workspace_id user_id purchase_id purchase_data other)"

text \<open>
  \<^verbatim>\<open>delete_purchase\<close>: the product named by the purchase gives the quantity back
  (\<^verbatim>\<open>new_stock = current_stock - quantity\<close>) under its version, then the purchase row is
  deleted. A purchase whose product no longer exists is deleted without a stock write.
\<close>

definition delete_purchases_row :: "int \<Rightarrow> int option \<Rightarrow> int \<Rightarrow> connection \<Rightarrow> connection" where
  "delete_purchases_row purchase_id workspace_id user_id c =
     (let wh = (\<lambda>r. pu_id r = purchase_id
                     \<and> scope workspace_id user_id (pu_workspaceId r) (pu_userId r));
          n = length (filter wh (purchases (working c)))
      in c\<lparr>working := (working c)\<lparr>purchases := filter (\<lambda>r. \<not> wh r) (purchases (working c))\<rparr>,
            total_changes := total_changes c + n,
            rowcounts := rowcounts c @ [(Ledger_delete, n)]\<rparr>)"

definition delete_purchase_body ::
  "workspace_env \<Rightarrow> int option \<Rightarrow> int \<Rightarrow> int \<Rightarrow> (database \<Rightarrow> database)
     \<Rightarrow> connection \<Rightarrow> (http_exception + unit) \<times> connection" where
  "delete_purchase_body env workspace_id user_id purchase_id other c =
     (case workspace_gate env workspace_id user_id Delete of
        Some e \<Rightarrow> (Inl e, c)
      | None \<Rightarrow>
     (case select_purchase (working c) workspace_id user_id purchase_id of
        None \<Rightarrow> (Inl (HTTPException 404 Record_not_found), c)
      | Some row \<Rightarrow>
          let product_name = pu_productName row;
              quantity = pu_quantity row
          in
          (case select_product_by_name (working c) workspace_id user_id product_name of
             None \<Rightarrow>
               (Inr (), commit (delete_purchases_row purchase_id workspace_id user_id
                                  (other_writers other c)))
           | Some product \<Rightarrow>
               let new_stock = p_stock product - quantity in
               (case update_products_stock Product_stock
                       (stock_where (p_id product) workspace_id user_id (p_version product))
                       new_stock (other_writers other c) of
                  (rowcount, c1) \<Rightarrow>
                    if rowcount = 0 then (Inl (HTTPException 409 Stock_modified), rollback c1)
                    else (Inr (), commit (delete_purchases_row purchase_id workspace_id user_id c1))))))"

definition delete_purchase ::
  "workspace_env \<Rightarrow> int option \<Rightarrow> int \<Rightarrow> int \<Rightarrow> (database \<Rightarrow> database)
     \<Rightarrow> connection \<Rightarrow> (http_exception + unit) \<times> connection" where
  "delete_purchase env workspace_id user_id purchase_id other =
     get_connection (delete_purchase_body env workspace_id user_id purchase_id other)"

section \<open>Sale handlers (server/routers/sales.py)\<close>

record sale_update =
  sd_productName :: "string option"
  sd_quantity :: "real option"
  sd_customerId :: "int option"
  sd_saleDate :: "string option"
  sd_totalSalePrice :: "real option"
  sd_note :: "string option"

definition select_sale :: "database \<Rightarrow> int option \<Rightarrow> int \<Rightarrow> int \<Rightarrow> sale option" where
  "select_sale db workspace_id user_id sale_id =
     find (\<lambda>r. sa_id r = sale_id \<and> scope workspace_id user_id (sa_workspaceId r) (sa_userId r))
       (sales db)"

definition no_sale_fields :: "sale_update \<Rightarrow> bool" where
  "no_sale_fields d =
     (sd_productName d = None \<and> sd_quantity d = None \<and> sd_saleDate d = None
      \<and> sd_customerId d = None \<and> sd_totalSalePrice d = None \<and> sd_note d = None)"

definition set_sale_fields :: "sale_update \<Rightarrow> sale \<Rightarrow> sale" where
  "set_sale_fields d r =
     r\<lparr>sa_productName := (case sd_productName d of Some n \<Rightarrow> n | None \<Rightarrow> sa_productName r),
       sa_quantity := (case sd_quantity d of Some q \<Rightarrow> q | None \<Rightarrow> sa_quantity r),
       sa_customerId := (case sd_customerId d of
                           Some i \<Rightarrow> (if i \<noteq> 0 then Some i else None)
                         | None \<Rightarrow> sa_customerId r),
       sa_saleDate := (case sd_saleDate d of Some x \<Rightarrow> Some x | None \<Rightarrow> sa_saleDate r),
       sa_totalSalePrice := (case sd_totalSalePrice d of
                               Some x \<Rightarrow> Some x
                             | None \<Rightarrow> sa_totalSalePrice r),
       sa_note := (case sd_note d of Some x \<Rightarrow> Some x | None \<Rightarrow> sa_note r)\<rparr>"

definition update_sales_row ::
  "int \<Rightarrow> int option \<Rightarrow> int \<Rightarrow> sale_update \<Rightarrow> connection \<Rightarrow> nat \<times> connection" where
  "update_sales_row sale_id workspace_id user_id d c =
     (let wh = (\<lambda>r. sa_id r = sale_id \<and> scope workspace_id user_id (sa_workspaceId r) (sa_userId r));
          n = length (filter wh (sales (working c)));
          rows = map (\<lambda>r. if wh r then set_sale_fields d r else r) (sales (working c))
      in (n, c\<lparr>working := (working c)\<lparr>sales := rows\<rparr>,
               total_changes := total_changes c + n,
               rowcounts := rowcounts c @ [(Ledger_row, n)]\<rparr>))"

text \<open>
  Lines 738-777 of \<^verbatim>\<open>update_sale\<close>: the sale moves to another product, so the old product
  gets the sold quantity back, written under the version read inside the transaction.
\<close>

definition sale_restore_old_product ::
  "int option \<Rightarrow> int \<Rightarrow> string \<Rightarrow> real \<Rightarrow> connection \<Rightarrow> http_exception option \<times> connection" where
  "sale_restore_old_product workspace_id user_id old_product_name old_quantity c =
     (case select_product_by_name (working c) workspace_id user_id old_product_name of
        None \<Rightarrow> (None, c)
      | Some old_product \<Rightarrow>
          let old_new_stock = p_stock old_product + old_quantity in
          (case update_products_stock Old_product_stock
                  (stock_where (p_id old_product) workspace_id user_id (p_version old_product))
                  old_new_stock c of
             (rowcount, c1) \<Rightarrow>
               if rowcount = 0 then (Some (HTTPException 409 Old_stock_modified), c1)
               else (None, c1)))"

definition update_sale_writes ::
  "int option \<Rightarrow> int \<Rightarrow> int \<Rightarrow> sale_update \<Rightarrow> (database \<Rightarrow> database) \<Rightarrow> bool \<Rightarrow> string
     \<Rightarrow> real \<Rightarrow> real \<Rightarrow> product \<Rightarrow> connection \<Rightarrow> http_exception option \<times> connection" where
  "update_sale_writes workspace_id user_id sale_id sale_data other product_changed
       old_product_name old_quantity new_quantity new_product c =
     (if no_sale_fields sale_data then (Some (HTTPException 400 No_fields), c)
      else
        (case update_sales_row sale_id workspace_id user_id sale_data (other_writers other c) of
           (n, c1) \<Rightarrow>
             let quantity_diff = old_quantity - new_quantity;
                 quantity_changed = (quantity_diff \<noteq> 0)
             in
             if product_changed \<or> quantity_changed then
               (case (if product_changed
                      then sale_restore_old_product workspace_id user_id old_product_name
                             old_quantity c1
                      else (None, c1)) of
                  (Some e, c2) \<Rightarrow> (Some e, c2)
                | (None, c2) \<Rightarrow>
                    let new_stock = (if product_changed then p_stock new_product - new_quantity
                                     else p_stock new_product + quantity_diff)
                    in
                    if new_stock < 0 then (Some (HTTPException 400 Insufficient_stock), c2)
                    else
                      (case update_products_stock Product_stock
                              (stock_where (p_id new_product) workspace_id user_id
                                 (p_version new_product))
                              new_stock c2 of
                         (rowcount, c3) \<Rightarrow>
                           if rowcount = 0 then (Some (HTTPException 409 Stock_modified), c3)
                           else (None, c3)))
             else (None, c1)))"

definition update_sale_checks ::
  "int option \<Rightarrow> int \<Rightarrow> sale_update \<Rightarrow> bool \<Rightarrow> real \<Rightarrow> real \<Rightarrow> product \<Rightarrow> database
     \<Rightarrow> http_exception option" where
  "update_sale_checks workspace_id user_id sale_data product_changed old_quantity new_quantity
       new_product db =
     (let current_stock = p_stock new_product in
      if product_changed \<and> 0 < new_quantity \<and> current_stock < new_quantity
      then Some (HTTPException 400 Insufficient_stock)
      else if \<not> product_changed \<and> old_quantity < new_quantity
              \<and> current_stock < new_quantity - old_quantity
      then Some (HTTPException 400 Insufficient_stock)
      else if sd_customerId sale_data \<noteq> None \<and> sd_customerId sale_data \<noteq> Some 0
              \<and> \<not> list_ex (\<lambda>s. Some (pa_id s) = sd_customerId sale_data
                                \<and> scope workspace_id user_id (pa_workspaceId s) (pa_userId s))
                     (customers db)
      then Some (HTTPException 400 Customer_invalid)
      else None)"

definition update_sale_body ::
  "workspace_env \<Rightarrow> int option \<Rightarrow> int \<Rightarrow> int \<Rightarrow> sale_update \<Rightarrow> (database \<Rightarrow> database)
     \<Rightarrow> connection \<Rightarrow> (http_exception + sale) \<times> connection" where
  "update_sale_body env workspace_id user_id sale_id sale_data other c =
     (case workspace_gate env workspace_id user_id Update of
        Some e \<Rightarrow> (Inl e, c)
      | None \<Rightarrow>
     (case select_sale (working c) workspace_id user_id sale_id of
        None \<Rightarrow> (Inl (HTTPException 404 Record_not_found), c)
      | Some row \<Rightarrow>
          let old_quantity = sa_quantity row;
              old_product_name = sa_productName row;
              new_quantity = (case sd_quantity sale_data of Some q \<Rightarrow> q | None \<Rightarrow> old_quantity);
              product_changed = (truthy (sd_productName sale_data)
                                 \<and> sd_productName sale_data \<noteq> Some old_product_name);
              new_product_name = (if product_changed
                                  then (case sd_productName sale_data of
                                          Some n \<Rightarrow> n | None \<Rightarrow> old_product_name)
                                  else old_product_name)
          in
          (case select_product_by_name (working c) workspace_id user_id new_product_name of
             None \<Rightarrow> (Inl (HTTPException 400 Product_missing), c)
           | Some new_product \<Rightarrow>
               (case update_sale_checks workspace_id user_id sale_data product_changed
                       old_quantity new_quantity new_product (working c) of
                  Some e \<Rightarrow> (Inl e, c)
                | None \<Rightarrow>
                    (case update_sale_writes workspace_id user_id sale_id sale_data other
                            product_changed old_product_name old_quantity new_quantity
                            new_product c of
                       (Some e, c1) \<Rightarrow> (Inl e, rollback c1)
                     | (None, c1) \<Rightarrow>
                         let c2 = commit c1 in
                         (case find (\<lambda>r. sa_id r = sale_id) (sales (working c2)) of
                            None \<Rightarrow> (Inl (HTTPException 500 Server_error), c2)
                          | Some r \<Rightarrow> (Inr r, c2)))))))"

definition update_sale ::
  "workspace_env \<Rightarrow> int option \<Rightarrow> int \<Rightarrow> int \<Rightarrow> sale_update \<Rightarrow> (database \<Rightarrow> database)
     \<Rightarrow> connection \<Rightarrow> (http_exception + sale) \<times> connection" where
  "update_sale env workspace_id user_id sale_id sale_data other =
     get_connection (update_sale_body env workspace_id user_id sale_id sale_data other)"

section \<open>Example data\<close>

text \<open>
  A workspace environment that lets every member edit, a product and a purchase of one
  user, and a handle fresh from the pool: no open transaction, a given number of earlier
  row changes.
\<close>

definition env0 :: workspace_env where
  "env0 = \<lparr>check_workspace_access = (\<lambda>w u. True),
           get_workspace_role = (\<lambda>w u. Some Editor),
           get_workspace_storage_type = (\<lambda>w. Some Server)\<rparr>"

definition rice :: "real \<Rightarrow> int \<Rightarrow> product" where
  "rice stock version =
     \<lparr>p_id = 1, p_userId = 7, p_workspaceId = None, p_name = ''rice'', p_description = None,
      p_stock = stock, p_unit = Jin, p_supplierId = None, p_version = Some version\<rparr>"

definition rice_purchase :: "real \<Rightarrow> purchase" where
  "rice_purchase q =
     \<lparr>pu_id = 1, pu_userId = 7, pu_workspaceId = None, pu_productName = ''rice'',
      pu_quantity = q, pu_purchaseDate = None, pu_supplierId = None,
      pu_totalPurchasePrice = None, pu_note = None\<rparr>"

definition db_of :: "product list \<Rightarrow> purchase list \<Rightarrow> sale list \<Rightarrow> database" where
  "db_of ps pus sas =
     \<lparr>products = ps, purchases = pus, sales = sas, suppliers = [], customers = []\<rparr>"

definition handle :: "database \<Rightarrow> nat \<Rightarrow> connection" where
  "handle db n = \<lparr>committed = db, working = db, total_changes = n, rowcounts = []\<rparr>"

text \<open>
  Rows of workspace 5, all entered by user 7: a product with a given id, name, stock and
  version, a purchase and a sale of a given product and quantity.
\<close>

definition shared_item :: "int \<Rightarrow> string \<Rightarrow> real \<Rightarrow> int \<Rightarrow> product" where
  "shared_item i name stock version =
     \<lparr>p_id = i, p_userId = 7, p_workspaceId = Some 5, p_name = name, p_description = None,
      p_stock = stock, p_unit = Jin, p_supplierId = None, p_version = Some version\<rparr>"

definition shared_purchase :: "string \<Rightarrow> real \<Rightarrow> purchase" where
  "shared_purchase name q =
     \<lparr>pu_id = 1, pu_userId = 7, pu_workspaceId = Some 5, pu_productName = name,
      pu_quantity = q, pu_purchaseDate = None, pu_supplierId = None,
      pu_totalPurchasePrice = None, pu_note = None\<rparr>"

definition shared_sale :: "string \<Rightarrow> real \<Rightarrow> sale" where
  "shared_sale name q =
     \<lparr>sa_id = 1, sa_userId = 7, sa_workspaceId = Some 5, sa_productName = name,
      sa_quantity = q, sa_customerId = None, sa_saleDate = None,
      sa_totalSalePrice = None, sa_note = None\<rparr>"

text \<open>Requests that change one field.\<close>

definition purchase_to :: "string \<Rightarrow> purchase_update" where
  "purchase_to name =
     \<lparr>ud_productName = Some name, ud_quantity = None, ud_purchaseDate = None,
      ud_supplierId = None, ud_totalPurchasePrice = None, ud_note = None\<rparr>"

definition purchase_quantity :: "real \<Rightarrow> purchase_update" where
  "purchase_quantity q =
     \<lparr>ud_productName = None, ud_quantity = Some q, ud_purchaseDate = None,
      ud_supplierId = None, ud_totalPurchasePrice = None, ud_note = None\<rparr>"

definition sale_to :: "string \<Rightarrow> sale_update" where
  "sale_to name =
     \<lparr>sd_productName = Some name, sd_quantity = None, sd_customerId = None,
      sd_saleDate = None, sd_totalSalePrice = None, sd_note = None\<rparr>"

definition set_stock :: "real \<Rightarrow> int option \<Rightarrow> product_update" where
  "set_stock s v =
     \<lparr>pd_name = None, pd_description = None, pd_stock = Some s, pd_unit = None,
      pd_supplierId = None, pd_version = v\<rparr>"

text \<open>
  What another handle commits in the examples: a sale that leaves rice at 8, version 4;
  a sale that takes one of the workspace's corn, leaving it at 8, version 2.
\<close>

definition corn_sold :: "database \<Rightarrow> database" where
  "corn_sold db = db\<lparr>products := [shared_item 1 ''rice'' 5 2, shared_item 2 ''corn'' 8 2]\<rparr>"


definition another_sale :: "database \<Rightarrow> database" where
  "another_sale db = db\<lparr>products := [rice 8 4]\<rparr>"

section \<open>Properties of the pool\<close>

text \<open>
  The quantity that the pool's steps keep bounded when they run one after another: idle
  handles plus checked-out handles.
\<close>

definition pool_inv :: "pool \<Rightarrow> bool" where
  "pool_inv p = (int (length (idle p)) + active_connections p \<le> max_connections p)"

lemma acquire_connection_inv:
  "pool_inv p \<Longrightarrow> pool_inv (snd (acquire_connection passes p))"
proof (induction passes arbitrary: p)
  case Nil
  then show ?case by simp
next
  case (Cons a passes)
  obtain created timed_out where a: "a = (created, timed_out)" by (cases a)
  show ?case
  proof (cases "idle p")
    case Nil
    then have g: "queue_get p = (None, p)" by (simp add: queue_get_def)
    show ?thesis
      using Cons Nil
      by (cases created) (auto simp: a g locked_create_def pool_inv_def)
  next
    case (Cons c cs)
    then have g: "queue_get p = (Some c, p\<lparr>idle := cs\<rparr>)" by (simp add: queue_get_def)
    show ?thesis
      using Cons.prems Cons
      by (simp add: a g locked_checkout_def pool_inv_def)
  qed
qed

lemma release_connection_inv:
  "pool_inv p \<Longrightarrow> pool_inv (release_connection rb pr c p)"
  by (cases pr) (auto simp: release_connection_def pool_inv_def queue_full_def Let_def)

lemma acquire_connection_max:
  "max_connections (snd (acquire_connection passes p)) = max_connections p"
proof (induction passes arbitrary: p)
  case Nil
  then show ?case by simp
next
  case (Cons a passes)
  obtain created timed_out where a: "a = (created, timed_out)" by (cases a)
  show ?case
    using Cons.IH [of p]
    by (cases "idle p"; cases created)
       (auto simp: a queue_get_def locked_create_def locked_checkout_def)
qed

lemma release_connection_max:
  "max_connections (release_connection rb pr c p) = max_connections p"
  by (cases pr) (auto simp: release_connection_def Let_def)

lemma serial_calls_inv: "pool_inv p \<Longrightarrow> pool_inv (serial_calls calls p)"
  unfolding serial_calls_def
proof (induction calls arbitrary: p)
  case Nil
  then show ?case by simp
next
  case (Cons c calls)
  have "pool_inv (pool_call_step p c)"
    using Cons.prems by (cases c) (simp_all add: acquire_connection_inv release_connection_inv)
  then show ?case using Cons.IH by simp
qed

lemma serial_calls_max: "max_connections (serial_calls calls p) = max_connections p"
  unfolding serial_calls_def
proof (induction calls arbitrary: p)
  case Nil
  then show ?case by simp
next
  case (Cons c calls)
  have "max_connections (pool_call_step p c) = max_connections p"
    by (cases c) (simp_all add: acquire_connection_max release_connection_max)
  then show ?case using Cons.IH by simp
qed

lemma length_map_filter_le: "length (List.map_filter f xs) \<le> length xs"
  by (induction xs) (auto simp: List.map_filter_simps split: option.splits)

lemma initialize_pool_inv: "0 \<le> m \<Longrightarrow> pool_inv (initialize_pool m create)"
  using length_map_filter_le [of create "[0..<nat (min 3 m)]"]
  by (auto simp: initialize_pool_def pool_inv_def Let_def)

text \<open>
  When every call of \<^verbatim>\<open>_acquire_connection\<close> and \<^verbatim>\<open>_release_connection\<close> runs to its end
  before the next one starts, the counter stays within the bound, whatever the calls are
  and however creation, timeouts, rollbacks and probes turn out.
\<close>

lemma serial_calls_bound:
  assumes "0 \<le> m"
  shows "active_connections (serial_calls calls (initialize_pool m create)) \<le> m"
proof -
  have "pool_inv (serial_calls calls (initialize_pool m create))"
    using assms by (simp add: serial_calls_inv initialize_pool_inv)
  moreover have "max_connections (serial_calls calls (initialize_pool m create)) = m"
    by (simp add: serial_calls_max initialize_pool_def Let_def)
  ultimately show ?thesis by (simp add: pool_inv_def)
qed

text \<open>
  A pass of \<^verbatim>\<open>_acquire_connection\<close> that finds the queue empty creates a handle only below
  the bound, and a pass that times out leaves the counter as it was.
\<close>

lemma locked_create_only_below_bound:
  "locked_create created p = (Some conn, p') \<Longrightarrow> active_connections p < max_connections p"
  by (auto simp: locked_create_def split: if_splits option.splits)

lemma acquire_connection_timeout:
  "idle p = [] \<Longrightarrow> max_connections p \<le> active_connections p \<Longrightarrow>
     acquire_connection ((created, True) # rest) p =
       (ConnectionTimeoutError (active_connections p) (max_connections p), p)"
  by (simp add: queue_get_def locked_create_def)

text \<open>
  Claim C5 (pool bound under interleaving). The claim says that in every reachable state
  the counter of checked-out handles is at most \<^verbatim>\<open>max_connections\<close>. The queue's \<^verbatim>\<open>get\<close> and
  the locked capacity test are separate steps, and the locked block after a successful
  \<^verbatim>\<open>get\<close> increments without a test. In the schedule \<open>race_schedule\<close>, with
  \<^verbatim>\<open>max_connections = 1\<close> and one pre-created handle, thread 1 sees the queue empty while
  thread 0 holds the handle, thread 0 releases, thread 1 creates a second handle because
  the counter is back to 0, and thread 2 takes the first handle from the queue: two
  handles are checked out and the counter is 2.
\<close>

theorem pool_bound_broken_by_interleaving:
  "max_connections (shared (run_schedule race_schedule (start_system 1 (\<lambda>i. Some i)))) = 1
   \<and> active_connections (shared (run_schedule race_schedule (start_system 1 (\<lambda>i. Some i)))) = 2
   \<and> pcs (run_schedule race_schedule (start_system 1 (\<lambda>i. Some i))) 1 = Holding 1
   \<and> pcs (run_schedule race_schedule (start_system 1 (\<lambda>i. Some i))) 2 = Holding 0"
  by (simp add: run_schedule_def race_schedule_def start_system_def initialize_pool_def
       system_step_def queue_get_def locked_checkout_def locked_create_def release_connection_def
       queue_full_def List.map_filter_simps)

text \<open>
  Every path of \<^verbatim>\<open>_release_connection\<close> on which the rollback succeeds takes one off the
  counter: the handle goes back to the queue, is dropped after a failed probe, or is
  closed because the queue is full.
\<close>

lemma release_connection_decrements:
  "active_connections (release_connection False probe conn p) = active_connections p - 1"
  by (cases probe) (simp_all add: release_connection_def Let_def)

text \<open>
  Claim C7 (release always decrements). The claim includes the path on which the
  defensive rollback raises. On that path the decrement, which stands after the rollback
  in the same \<^verbatim>\<open>try\<close>, is skipped: releasing the only checked-out handle of a pool leaves
  the counter at 1.
\<close>

theorem release_connection_rollback_raises:
  "active_connections
     (release_connection True Probe_ok 0
        \<lparr>max_connections = 10, idle = [], active_connections = 1, total_connections = 1\<rparr>) = 1"
  by (simp add: release_connection_def)

lemma release_connection_rollback_raises_any:
  "release_connection True probe conn p = p"
  by (simp add: release_connection_def)

section \<open>Properties of the retry loop\<close>

lemma retry_loop_skip_busy:
  "\<forall>i. a \<le> i \<and> i < k \<longrightarrow> op i = Busy_raised \<Longrightarrow> a \<le> k \<Longrightarrow> int k < n \<Longrightarrow>
     retry_loop op d n a slept le =
     retry_loop op d n k (slept @ map (\<lambda>i. d * 2 ^ i) [a..<k]) (le \<or> a < k)"
proof (induction k)
  case 0
  then show ?case by simp
next
  case (Suc k)
  show ?case
  proof (cases "a = Suc k")
    case True
    then show ?thesis by simp
  next
    case False
    with Suc.prems have ak: "a \<le> k" and kn: "int k < n" and busy: "op k = Busy_raised"
      by auto
    have "retry_loop op d n a slept le =
          retry_loop op d n k (slept @ map (\<lambda>i. d * 2 ^ i) [a..<k]) (le \<or> a < k)"
      using Suc.IH Suc.prems ak kn by simp
    also have "\<dots> = retry_loop op d n (Suc k)
                       ((slept @ map (\<lambda>i. d * 2 ^ i) [a..<k]) @ [d * 2 ^ k]) True"
      using Suc.prems(3) busy kn
      by (subst retry_loop.simps) simp
    finally show ?thesis using ak by simp
  qed
qed

lemma retry_all_busy:
  assumes "1 \<le> n" and "\<forall>i. int i < n \<longrightarrow> op i = Busy_raised"
  shows "execute_with_retry op d n =
           (Raises_DatabaseBusyError, map (\<lambda>i. d * 2 ^ i) [0..<nat n - 1], nat n)"
proof -
  define k where "k = nat n - 1"
  have kn: "int k < n" and k1: "int k = n - 1" using assms(1) by (auto simp: k_def)
  have "retry_loop op d n 0 [] False =
        retry_loop op d n k ([] @ map (\<lambda>i. d * 2 ^ i) [0..<k]) (False \<or> 0 < k)"
    using assms(2) kn by (intro retry_loop_skip_busy) auto
  also have "\<dots> = (Raises_DatabaseBusyError, map (\<lambda>i. d * 2 ^ i) [0..<k], k + 1)"
    using assms(2) kn k1 by (subst retry_loop.simps) simp
  finally show ?thesis using assms(1) by (simp add: execute_with_retry_def k_def)
qed

lemma retry_first_other:
  assumes "int k < n" and "\<forall>i < k. op i = Busy_raised" and "op k \<noteq> Busy_raised"
  shows "execute_with_retry op d n =
           ((case op k of
               Completed v \<Rightarrow> Returns v
             | Other_raised e \<Rightarrow> Raises_other e
             | Busy_raised \<Rightarrow> Raises_DatabaseBusyError),
            map (\<lambda>i. d * 2 ^ i) [0..<k], k + 1)"
proof -
  have "retry_loop op d n 0 [] False =
        retry_loop op d n k ([] @ map (\<lambda>i. d * 2 ^ i) [0..<k]) (False \<or> 0 < k)"
    using assms by (intro retry_loop_skip_busy) auto
  also have "\<dots> = ((case op k of
                        Completed v \<Rightarrow> Returns v
                      | Other_raised e \<Rightarrow> Raises_other e
                      | Busy_raised \<Rightarrow> Raises_DatabaseBusyError),
                     map (\<lambda>i. d * 2 ^ i) [0..<k], k + 1)"
    using assms by (subst retry_loop.simps) (simp split: attempt_outcome.splits)
  finally show ?thesis by (simp add: execute_with_retry_def)
qed

text \<open>
  Claim C6 (retry policy). The result of \<^verbatim>\<open>execute_with_retry\<close> is a triple: how the call
  ends, the arguments of \<^verbatim>\<open>time.sleep\<close> in order, and the number of attempts made.
  If all \<open>n\<close> attempts are busy, the call makes \<open>n\<close> attempts, sleeps
  \<open>retry_delay * 2 ^ i\<close> after attempt \<open>i\<close> for every attempt but the last, and raises
  \<^verbatim>\<open>DatabaseBusyError\<close>. If attempt \<open>k\<close> is the first that is not busy, the call ends
  with it, as a return or as that exception, after exactly the \<open>k\<close> sleeps of the busy
  attempts before it: there is no further attempt and no sleep for a failure that is not
  \<^verbatim>\<open>DatabaseBusyError\<close>.
\<close>

theorem execute_with_retry_policy:
  "(1 \<le> n \<and> (\<forall>i. int i < n \<longrightarrow> op i = Busy_raised)
      \<longrightarrow> execute_with_retry op d n =
            (Raises_DatabaseBusyError, map (\<lambda>i. d * 2 ^ i) [0..<nat n - 1], nat n))
   \<and> (int k < n \<and> (\<forall>i<k. op i = Busy_raised) \<and> op k = Completed v
      \<longrightarrow> execute_with_retry op d n = (Returns v, map (\<lambda>i. d * 2 ^ i) [0..<k], k + 1))
   \<and> (int k < n \<and> (\<forall>i<k. op i = Busy_raised) \<and> op k = Other_raised e
      \<longrightarrow> execute_with_retry op d n = (Raises_other e, map (\<lambda>i. d * 2 ^ i) [0..<k], k + 1))"
proof (intro conjI impI)
  assume "1 \<le> n \<and> (\<forall>i. int i < n \<longrightarrow> op i = Busy_raised)"
  then show "execute_with_retry op d n =
            (Raises_DatabaseBusyError, map (\<lambda>i. d * 2 ^ i) [0..<nat n - 1], nat n)"
    by (simp add: retry_all_busy)
next
  assume "int k < n \<and> (\<forall>i<k. op i = Busy_raised) \<and> op k = Completed v"
  then show "execute_with_retry op d n = (Returns v, map (\<lambda>i. d * 2 ^ i) [0..<k], k + 1)"
    using retry_first_other [of k n op d] by simp
next
  assume "int k < n \<and> (\<forall>i<k. op i = Busy_raised) \<and> op k = Other_raised e"
  then show "execute_with_retry op d n = (Raises_other e, map (\<lambda>i. d * 2 ^ i) [0..<k], k + 1)"
    using retry_first_other [of k n op d] by simp
qed

text \<open>
  With three attempts and a delay of 0.1: three busy attempts sleep 0.1 and 0.2 and raise;
  a success at the third attempt returns after the same two sleeps; a failure of another
  kind at the second attempt is raised after the one sleep before it, with no third
  attempt.
\<close>

theorem execute_with_retry_policy_witness:
  "execute_with_retry (\<lambda>i. Busy_raised :: nat attempt_outcome) (1 / 10) 3 =
     (Raises_DatabaseBusyError, [1 / 10, 1 / 5], 3)
   \<and> execute_with_retry (\<lambda>i. if i < 2 then Busy_raised else Completed (7::nat)) (1 / 10) 3 =
     (Returns 7, [1 / 10, 1 / 5], 3)
   \<and> execute_with_retry
       (\<lambda>i. if i < 1 then Busy_raised else Other_raised 4 :: nat attempt_outcome) (1 / 10) 3 =
     (Raises_other 4, [1 / 10], 2)"
proof -
  have u2: "[0..<2] = [0, Suc 0]" and u1: "[0..<1] = [0]"
    by (simp_all add: upt_rec)
  have a: "execute_with_retry (\<lambda>i. Busy_raised :: nat attempt_outcome) (1 / 10) 3 =
     (Raises_DatabaseBusyError, [1 / 10, 1 / 5], 3)"
    using execute_with_retry_policy
      [where n = 3 and op = "\<lambda>i. Busy_raised :: nat attempt_outcome" and d = "1 / 10"]
    by (simp add: u2)
  have b: "execute_with_retry (\<lambda>i. if i < 2 then Busy_raised else Completed (7::nat)) (1 / 10) 3 =
     (Returns 7, [1 / 10, 1 / 5], 3)"
    using execute_with_retry_policy
      [where n = 3 and op = "\<lambda>i. if i < 2 then Busy_raised else Completed (7::nat)"
         and d = "1 / 10" and k = 2 and v = 7]
    by (simp add: u2)
  have c: "execute_with_retry
             (\<lambda>i. if i < 1 then Busy_raised else Other_raised 4 :: nat attempt_outcome) (1 / 10) 3 =
     (Raises_other 4, [1 / 10], 2)"
    using execute_with_retry_policy
      [where n = 3
         and op = "\<lambda>i. if i < 1 then Busy_raised else Other_raised 4 :: nat attempt_outcome"
         and d = "1 / 10" and k = 1 and e = 4]
    by (simp add: u1)
  show ?thesis using a b c by simp
qed

section \<open>Properties of the stock adjustment (update_product_stock)\<close>

lemma version_or_1_stale: "version_or_1 (Some v) \<noteq> v - 1"
  by (simp add: version_or_1_def)

lemma filter_empty_map_id:
  "filter wh xs = [] \<Longrightarrow> map (\<lambda>r. if wh r then f r else r) xs = xs"
  by (induction xs) (auto split: if_splits)

lemma update_products_stock_none:
  "filter wh (products (working c)) = [] \<Longrightarrow>
     update_products_stock tag wh s c = (0, c\<lparr>rowcounts := rowcounts c @ [(tag, 0)]\<rparr>)"
  by (simp add: update_products_stock_def Let_def filter_empty_map_id)

lemma find_map_upd:
  assumes "find P xs = Some x" and "\<And>r. P (f r) = P r"
  shows "find P (map (\<lambda>r. if Q r then f r else r) xs) = Some (if Q x then f x else x)"
  using assms
proof (induction xs)
  case Nil
  then show ?case by simp
next
  case (Cons a xs)
  then show ?case by (cases "P a") auto
qed

lemma find_scope_stock_where:
  assumes "select_product_by_id db workspace_id user_id product_id = Some row"
  shows "p_id row = product_id \<and> scope workspace_id user_id (p_workspaceId row) (p_userId row)"
  using assms unfolding select_product_by_id_def
  by (auto simp: find_Some_iff)

text \<open>
  The guarded \<^verbatim>\<open>UPDATE\<close> applied: the request carries the version \<open>v\<close> of the row as it
  was read, and when the write runs the row in the caller's scope still stands at \<open>v\<close>,
  whatever else other handles committed in between. Then the handler succeeds and the
  committed row carries the stock that was read plus the requested change, at version
  \<open>v + 1\<close>.
\<close>

lemma stock_success_state:
  assumes gate: "workspace_gate env workspace_id user_id Update = None"
      and sel: "select_product_by_id (working c) workspace_id user_id product_id = Some row"
      and ver: "p_version row = Some v" and req: "su_version stock_data = v" and v0: "v \<noteq> 0"
      and nn: "0 \<le> p_stock row + su_quantity stock_data"
      and sel': "select_product_by_id (other (working c)) workspace_id user_id product_id = Some row'"
      and ver': "p_version row' = Some v"
  shows "\<exists>resp c'. update_product_stock env workspace_id user_id product_id stock_data other c
                     = (Inr resp, c')
          \<and> select_product_by_id (committed c') workspace_id user_id product_id =
              Some (row'\<lparr>p_stock := p_stock row + su_quantity stock_data, p_version := Some (v + 1)\<rparr>)
          \<and> working c' = committed c'"
proof -
  let ?wh = "stock_where product_id workspace_id user_id (Some v)"
  let ?new = "p_stock row + su_quantity stock_data"
  let ?f = "\<lambda>r. r\<lparr>p_stock := ?new, p_version := map_option (\<lambda>v. v + 1) (p_version r)\<rparr>"
  let ?rows = "map (\<lambda>r. if ?wh r then ?f r else r) (products (other (working c)))"
  have rowin: "row' \<in> set (products (other (working c)))"
    using sel' by (auto simp: select_product_by_id_def find_Some_iff)
  have whrow: "?wh row'"
    using find_scope_stock_where [OF sel'] ver' by (simp add: stock_where_def)
  have n0: "length (filter ?wh (products (other (working c)))) \<noteq> 0"
    using rowin whrow by (auto simp: filter_empty_conv)
  have s1: "find (\<lambda>r. p_id r = product_id
                       \<and> scope workspace_id user_id (p_workspaceId r) (p_userId r)) ?rows
               = Some (if ?wh row' then ?f row' else row')"
    using sel' unfolding select_product_by_id_def
    by (intro find_map_upd) auto
  have "find (\<lambda>r. p_id r = product_id) (products (other (working c))) \<noteq> None"
    using rowin find_scope_stock_where [OF sel'] by (auto simp: find_None_iff)
  then obtain x where x: "find (\<lambda>r. p_id r = product_id) (products (other (working c))) = Some x"
    by auto
  have r: "find (\<lambda>r. p_id r = product_id) ?rows = Some (if ?wh x then ?f x else x)"
    using x by (intro find_map_upd) auto
  show ?thesis
    using gate sel ver ver' req v0 nn n0 r s1 whrow
    by (simp add: update_product_stock_def get_connection_def update_product_stock_body_def
        update_products_stock_def other_writers_def commit_def Let_def version_or_1_def
        select_product_by_id_def)
qed

text \<open>
  Claim C1 (stale version). A product row in the caller's scope stands at version \<open>v\<close>
  and the request carries \<open>v - 1\<close>: the handler answers 409 and the handle, with the
  committed rows, the statement counter and the working copy, is exactly as before.
\<close>

theorem stale_version_conflict:
  assumes "working c = committed c"
      and "workspace_gate env workspace_id user_id Update = None"
      and "select_product_by_id (working c) workspace_id user_id product_id = Some row"
      and "p_version row = Some v"
      and "su_version stock_data = v - 1"
  shows "update_product_stock env workspace_id user_id product_id stock_data other c =
           (Inl (HTTPException 409 Version_mismatch), c)"
  using assms version_or_1_stale [of v]
  by (simp add: update_product_stock_def get_connection_def update_product_stock_body_def
        rollback_def Let_def)

text \<open>Rice stands at stock 6, version 4; a request with version 3 is refused.\<close>

theorem stale_version_conflict_witness:
  "update_product_stock env0 None 7 1 \<lparr>su_quantity = - 4, su_version = 3\<rparr> id
     (handle (db_of [rice 6 4] [] []) 1) =
   (Inl (HTTPException 409 Version_mismatch), handle (db_of [rice 6 4] [] []) 1)"
proof -
  have sel: "select_product_by_id (working (handle (db_of [rice 6 4] [] []) 1)) None 7 1 = Some (rice 6 4)"
    by (simp add: select_product_by_id_def scope_def rice_def handle_def db_of_def)
  show ?thesis
    using stale_version_conflict [where c = "handle (db_of [rice 6 4] [] []) 1" and env = env0
        and workspace_id = None and user_id = 7 and product_id = 1 and row = "rice 6 4" and v = 4
        and stock_data = "\<lparr>su_quantity = - 4, su_version = 3\<rparr>" and other = id] sel
    by (simp add: handle_def workspace_gate_def rice_def)
qed

text \<open>
  A request that would take the stock below zero is refused with a 400 and nothing
  changes.
\<close>

lemma stock_insufficient_rejected:
  assumes "working c = committed c"
      and "workspace_gate env workspace_id user_id Update = None"
      and "select_product_by_id (working c) workspace_id user_id product_id = Some row"
      and "su_version stock_data = version_or_1 (p_version row)"
      and "p_stock row + su_quantity stock_data < 0"
  shows "update_product_stock env workspace_id user_id product_id stock_data other c =
           (Inl (HTTPException 400 Insufficient_stock), c)"
  using assms
  by (simp add: update_product_stock_def get_connection_def update_product_stock_body_def
        rollback_def Let_def)

text \<open>
  A handler that runs alone and succeeds with the stored version \<open>v\<close> leaves the row with
  stock \<open>stock + quantity\<close> and version \<open>v + 1\<close>; the scenario of the specification,
  stock 10 at version 3 minus 4, gives 6 at version 4.
\<close>

lemma stock_mutation_alone:
  assumes sel: "select_product_by_id (working c) workspace_id user_id product_id = Some row"
      and ver: "p_version row = Some v" and req: "su_version stock_data = v"
      and nn: "0 \<le> p_stock row + su_quantity stock_data"
      and ok: "update_product_stock env workspace_id user_id product_id stock_data id c = (Inr resp, c')"
  shows "select_product_by_id (committed c') workspace_id user_id product_id =
           Some (row\<lparr>p_stock := p_stock row + su_quantity stock_data, p_version := Some (v + 1)\<rparr>)
         \<and> working c' = committed c'"
proof -
  have gate: "workspace_gate env workspace_id user_id Update = None"
    using ok
    by (cases "workspace_gate env workspace_id user_id Update")
       (simp_all add: update_product_stock_def get_connection_def update_product_stock_body_def)
  have v0: "v \<noteq> 0"
  proof
    assume "v = 0"
    then show False
      using ok gate sel ver req
      by (simp add: update_product_stock_def get_connection_def update_product_stock_body_def
            version_or_1_def Let_def)
  qed
  have sel': "select_product_by_id (id (working c)) workspace_id user_id product_id = Some row"
    using sel by simp
  from stock_success_state [where other = id, OF gate sel ver req v0 nn sel' ver] ok
  show ?thesis by auto
qed

lemma stock_mutation_scenario:
  "update_product_stock env0 None 7 1 \<lparr>su_quantity = - 4, su_version = 3\<rparr> id
     (handle (db_of [rice 10 3] [] []) 0) =
   (Inr (rice 6 4),
    \<lparr>committed = db_of [rice 6 4] [] [], working = db_of [rice 6 4] [] [], total_changes = 1,
     rowcounts = [(Product_stock, 1)]\<rparr>)"
  by (simp add: update_product_stock_def get_connection_def update_product_stock_body_def
        workspace_gate_def select_product_by_id_def scope_def rice_def handle_def db_of_def
        version_or_1_def stock_where_def update_products_stock_def other_writers_def
        commit_def Let_def)

text \<open>
  Claim C4 (result of a successful mutation). The claim says that every successful
  mutation with a matching version and a non-negative new stock ends at
  \<open>stock + quantity\<close> and \<open>version + 1\<close>. The handler decides success by
  \<^verbatim>\<open>conn.total_changes\<close>, not by the row count of its own \<^verbatim>\<open>UPDATE\<close> as the purchase, sale
  and return handlers do. Rice is read at stock 10, version 3, and the request (minus 4,
  version 3) passes the comparison and the stock test; another handle commits stock 8,
  version 4 before the write. On a handle with five earlier row changes the \<^verbatim>\<open>UPDATE\<close>
  matches no row and the handler still answers success: the row stays at stock 8,
  version 4, where the claim has stock 6, version 4 for the request's own read, and
  nothing was subtracted.
\<close>

theorem stock_success_without_write:
  "select_product_by_id (working (handle (db_of [rice 10 3] [] []) 5)) None 7 1 = Some (rice 10 3)
   \<and> 0 \<le> p_stock (rice 10 3) + su_quantity \<lparr>su_quantity = - 4, su_version = 3\<rparr>
   \<and> update_product_stock env0 None 7 1 \<lparr>su_quantity = - 4, su_version = 3\<rparr> another_sale
        (handle (db_of [rice 10 3] [] []) 5) =
      (Inr (rice 8 4),
       \<lparr>committed = db_of [rice 8 4] [] [], working = db_of [rice 8 4] [] [], total_changes = 5,
        rowcounts = [(Product_stock, 0)]\<rparr>)"
  by (simp add: update_product_stock_def get_connection_def update_product_stock_body_def
        workspace_gate_def select_product_by_id_def scope_def rice_def handle_def db_of_def
        another_sale_def version_or_1_def stock_where_def update_products_stock_def
        other_writers_def commit_def Let_def)

text \<open>
  Claim C8 (the check after the write reads \<^verbatim>\<open>total_changes\<close>). The request passed the
  version comparison and the stock test. Then the 409 after the write is raised exactly
  when the handle's cumulative \<^verbatim>\<open>total_changes\<close>, including the rows this \<^verbatim>\<open>UPDATE\<close>
  matched, is zero. So on a handle that has changed a row before, an \<^verbatim>\<open>UPDATE\<close> that
  matches no row (another handle moved the version after the read) is answered as a
  success, with the row as the other handle left it.
\<close>

theorem stock_check_reads_total_changes:
  assumes gate: "workspace_gate env workspace_id user_id Update = None"
      and sel: "select_product_by_id (working c) workspace_id user_id product_id = Some row"
      and req: "su_version stock_data = version_or_1 (p_version row)"
      and nn: "0 \<le> p_stock row + su_quantity stock_data"
  shows "(fst (update_product_stock env workspace_id user_id product_id stock_data other c) =
            Inl (HTTPException 409 Stock_modified)
          \<longleftrightarrow> total_changes c
                + length (filter (stock_where product_id workspace_id user_id
                                    (Some (version_or_1 (p_version row))))
                            (products (other (working c)))) = 0)
       \<and> (0 < total_changes c
          \<and> filter (stock_where product_id workspace_id user_id
                      (Some (version_or_1 (p_version row))))
               (products (other (working c))) = []
          \<and> find (\<lambda>r. p_id r = product_id) (products (other (working c))) = Some r
          \<longrightarrow> update_product_stock env workspace_id user_id product_id stock_data other c =
                (Inr (r\<lparr>p_version := Some (version_or_1 (p_version r))\<rparr>),
                 c\<lparr>committed := other (working c), working := other (working c),
                   rowcounts := rowcounts c @ [(Product_stock, 0)]\<rparr>))"
proof (intro conjI impI)
  let ?wh = "stock_where product_id workspace_id user_id (Some (version_or_1 (p_version row)))"
  let ?c0 = "other_writers other c"
  obtain n c1 where u: "update_products_stock Product_stock ?wh
                          (p_stock row + su_quantity stock_data) ?c0 = (n, c1)"
    by (cases "update_products_stock Product_stock ?wh (p_stock row + su_quantity stock_data) ?c0")
  have n: "n = length (filter ?wh (products (other (working c))))"
    and tc: "total_changes c1 = total_changes c + n"
    using u by (auto simp: update_products_stock_def other_writers_def Let_def)
  show "fst (update_product_stock env workspace_id user_id product_id stock_data other c) =
            Inl (HTTPException 409 Stock_modified)
          \<longleftrightarrow> total_changes c + length (filter ?wh (products (other (working c)))) = 0"
    using gate sel req nn u tc n
    by (auto simp: update_product_stock_def get_connection_def update_product_stock_body_def
          Let_def split: option.splits)
next
  let ?wh = "stock_where product_id workspace_id user_id (Some (version_or_1 (p_version row)))"
  assume a: "0 < total_changes c \<and> filter ?wh (products (other (working c))) = []
          \<and> find (\<lambda>r. p_id r = product_id) (products (other (working c))) = Some r"
  have u: "update_products_stock Product_stock ?wh (p_stock row + su_quantity stock_data)
             (other_writers other c) =
           (0, (other_writers other c)\<lparr>rowcounts := rowcounts (other_writers other c) @ [(Product_stock, 0)]\<rparr>)"
    using a by (intro update_products_stock_none) (simp add: other_writers_def)
  show "update_product_stock env workspace_id user_id product_id stock_data other c =
                (Inr (r\<lparr>p_version := Some (version_or_1 (p_version r))\<rparr>),
                 c\<lparr>committed := other (working c), working := other (working c),
                   rowcounts := rowcounts c @ [(Product_stock, 0)]\<rparr>)"
    using gate sel req nn u a
    by (simp add: update_product_stock_def get_connection_def update_product_stock_body_def
          Let_def other_writers_def commit_def)
qed

text \<open>
  Rice is read at stock 10, version 3; another handle commits stock 8, version 4 before
  the write. On a handle with five earlier row changes the request is answered with the
  row at 8 and version 4 although its \<^verbatim>\<open>UPDATE\<close> matched nothing; on a handle with none it
  gets the 409.
\<close>

theorem stock_check_reads_total_changes_witness:
  "update_product_stock env0 None 7 1 \<lparr>su_quantity = - 4, su_version = 3\<rparr> another_sale
     (handle (db_of [rice 10 3] [] []) 5) =
   (Inr (rice 8 4),
    \<lparr>committed = db_of [rice 8 4] [] [], working = db_of [rice 8 4] [] [], total_changes = 5,
     rowcounts = [(Product_stock, 0)]\<rparr>)
   \<and> fst (update_product_stock env0 None 7 1 \<lparr>su_quantity = - 4, su_version = 3\<rparr> another_sale
            (handle (db_of [rice 10 3] [] []) 0)) = Inl (HTTPException 409 Stock_modified)"
proof -
  have sel: "select_product_by_id (working (handle (db_of [rice 10 3] [] []) n)) None 7 1 = Some (rice 10 3)" for n
    by (simp add: select_product_by_id_def scope_def rice_def handle_def db_of_def)
  have gate: "workspace_gate env0 None 7 Update = None"
    by (simp add: workspace_gate_def)
  have req: "su_version \<lparr>su_quantity = - 4, su_version = 3\<rparr> = version_or_1 (p_version (rice 10 3))"
    by (simp add: rice_def version_or_1_def)
  have nn: "0 \<le> p_stock (rice 10 3) + su_quantity \<lparr>su_quantity = - 4, su_version = 3\<rparr>"
    by (simp add: rice_def)
  note t = stock_check_reads_total_changes [OF gate sel req nn, where other = another_sale]
  have a: "update_product_stock env0 None 7 1 \<lparr>su_quantity = - 4, su_version = 3\<rparr> another_sale
     (handle (db_of [rice 10 3] [] []) 5) =
   (Inr (rice 8 4),
    \<lparr>committed = db_of [rice 8 4] [] [], working = db_of [rice 8 4] [] [], total_changes = 5,
     rowcounts = [(Product_stock, 0)]\<rparr>)"
    using t [of 5 "rice 8 4"]
    by (simp add: handle_def db_of_def another_sale_def rice_def stock_where_def scope_def
          version_or_1_def)
  have b: "fst (update_product_stock env0 None 7 1 \<lparr>su_quantity = - 4, su_version = 3\<rparr> another_sale
            (handle (db_of [rice 10 3] [] []) 0)) = Inl (HTTPException 409 Stock_modified)"
    using t [of 0 "rice 8 4"]
    by (simp add: handle_def db_of_def another_sale_def rice_def stock_where_def scope_def
          version_or_1_def)
  show ?thesis using a b by simp
qed

section \<open>Properties of the ledger handlers\<close>

text \<open>
  Claim C2 (stock never negative). The claim covers every accepted ledger mutation.
  \<^verbatim>\<open>delete_purchase\<close> subtracts the purchased quantity with no test of the sign, unlike
  \<^verbatim>\<open>delete_return\<close> and the reversal in \<^verbatim>\<open>update_purchase\<close>: deleting a purchase of 10
  when 3 are left in stock succeeds and commits a stock of -7 at the next version.
\<close>

theorem delete_purchase_negative_stock:
  "delete_purchase env0 None 7 1 id (handle (db_of [rice 3 2] [rice_purchase 10] []) 0) =
     (Inr (),
      \<lparr>committed = db_of [rice (- 7) 3] [] [], working = db_of [rice (- 7) 3] [] [],
       total_changes = 2, rowcounts = [(Product_stock, 1), (Ledger_delete, 1)]\<rparr>)"
  by (simp add: delete_purchase_def get_connection_def delete_purchase_body_def
        workspace_gate_def select_purchase_def select_product_by_name_def scope_def
        rice_def rice_purchase_def handle_def db_of_def stock_where_def
        update_products_stock_def delete_purchases_row_def other_writers_def commit_def Let_def)

text \<open>
  What the writes of the ledger handlers do to the handle: each appends its row count,
  none touches the committed state, and a stock write keeps the id and the owner of every
  product row.
\<close>

lemma update_products_stock_facts:
  assumes "update_products_stock tag wh s c = (n, c1)"
  shows "rowcounts c1 = rowcounts c @ [(tag, n)]"
    and "committed c1 = committed c"
    and "n = length (filter wh (products (working c)))"
    and "map (\<lambda>r. (p_id r, p_userId r)) (products (working c1)) =
         map (\<lambda>r. (p_id r, p_userId r)) (products (working c))"
  using assms by (auto simp: update_products_stock_def Let_def)

lemma purchase_restore_facts:
  assumes "purchase_restore_old_product workspace_id user_id name q c = (res, c1)"
  shows "committed c1 = committed c"
    and "map (\<lambda>r. (p_id r, p_userId r)) (products (working c1)) =
         map (\<lambda>r. (p_id r, p_userId r)) (products (working c))"
    and "\<exists>l. rowcounts c1 = rowcounts c @ l \<and> (\<forall>x \<in> set l. fst x = Old_product_stock)
           \<and> ((Old_product_stock, 0) \<in> set l \<longrightarrow> res = Some (HTTPException 409 Old_stock_modified))"
  using assms
  by (auto simp: purchase_restore_old_product_def update_products_stock_def Let_def
           split: option.splits if_splits)

lemma update_purchases_row_facts:
  assumes "update_purchases_row purchase_id workspace_id user_id d c = (n, c1)"
  shows "rowcounts c1 = rowcounts c @ [(Ledger_row, n)]"
    and "committed c1 = committed c"
    and "products (working c1) = products (working c)"
  using assms by (auto simp: update_purchases_row_def Let_def)

lemma other_writers_facts:
  "rowcounts (other_writers f c) = rowcounts c"
  "committed (other_writers f c) = f (committed c)"
  "working (other_writers f c) = f (working c)"
  by (simp_all add: other_writers_def)

lemma update_purchase_writes_facts:
  assumes w: "update_purchase_writes workspace_id user_id purchase_id d other pc oname oq nq np c
                = (res, c1)"
      and e: "rowcounts c = []"
  shows "(Old_product_stock, 0) \<in> set (rowcounts c1) \<or> (Product_stock, 0) \<in> set (rowcounts c1)
           \<Longrightarrow> (res = Some (HTTPException 409 Old_stock_modified)
                \<or> res = Some (HTTPException 409 Stock_modified))
               \<and> committed c1 = other (committed c)"
    and "(Product_stock, n) \<in> set (rowcounts c1)
           \<Longrightarrow> \<exists>xs. map (\<lambda>r. (p_id r, p_userId r)) xs =
                       map (\<lambda>r. (p_id r, p_userId r)) (products (other (working c)))
                  \<and> n = length (filter (stock_where (p_id np) None user_id (p_version np)) xs)"
    and "(Product_stock, 0) \<in> set (rowcounts c1)
           \<Longrightarrow> res = Some (HTTPException 409 Stock_modified)"
proof -
  let ?key = "\<lambda>r. (p_id r, p_userId r)"
  let ?goal1 = "(Old_product_stock, 0) \<in> set (rowcounts c1) \<or> (Product_stock, 0) \<in> set (rowcounts c1)
           \<longrightarrow> (res = Some (HTTPException 409 Old_stock_modified)
                \<or> res = Some (HTTPException 409 Stock_modified))
               \<and> committed c1 = other (committed c)"
  let ?goal2 = "(Product_stock, n) \<in> set (rowcounts c1)
           \<longrightarrow> (\<exists>xs. map ?key xs = map ?key (products (other (working c)))
                  \<and> n = length (filter (stock_where (p_id np) None user_id (p_version np)) xs))"
  let ?goal3 = "(Product_stock, 0) \<in> set (rowcounts c1)
           \<longrightarrow> res = Some (HTTPException 409 Stock_modified)"
  have "?goal1 \<and> ?goal2 \<and> ?goal3"
  proof (cases "no_purchase_fields d")
    case True
    then show ?thesis using w e by (simp add: update_purchase_writes_def)
  next
    case False
    obtain n0 ca where u: "update_purchases_row purchase_id workspace_id user_id d
                             (other_writers other c) = (n0, ca)"
      by (cases "update_purchases_row purchase_id workspace_id user_id d (other_writers other c)")
    note fa = update_purchases_row_facts [OF u]
    have rca: "rowcounts ca = [(Ledger_row, n0)]"
      and cca: "committed ca = other (committed c)"
      and pca: "products (working ca) = products (other (working c))"
      using fa e by (simp_all add: other_writers_facts)
    show ?thesis
    proof (cases "pc \<or> nq - oq \<noteq> 0")
      case False
      then have "res = None" "c1 = ca"
        using w u \<open>\<not> no_purchase_fields d\<close>
        by (simp_all add: update_purchase_writes_def Let_def)
      then show ?thesis using rca by simp
    next
      case changed: True
      obtain r2 cb where rs: "(if pc then purchase_restore_old_product workspace_id user_id oname oq ca
                               else (None, ca)) = (r2, cb)"
        by (cases "if pc then purchase_restore_old_product workspace_id user_id oname oq ca
                   else (None, ca)")
      have fb: "committed cb = other (committed c)"
           "map ?key (products (working cb)) = map ?key (products (other (working c)))"
           "\<exists>l. rowcounts cb = [(Ledger_row, n0)] @ l \<and> (\<forall>x \<in> set l. fst x = Old_product_stock)
             \<and> ((Old_product_stock, 0) \<in> set l \<longrightarrow> r2 = Some (HTTPException 409 Old_stock_modified))"
      proof -
        show "committed cb = other (committed c)"
          using rs cca purchase_restore_facts(1) [of workspace_id user_id oname oq ca r2 cb]
          by (auto split: if_splits)
        show "map ?key (products (working cb)) = map ?key (products (other (working c)))"
          using rs pca purchase_restore_facts(2) [of workspace_id user_id oname oq ca r2 cb]
          by (auto split: if_splits)
        show "\<exists>l. rowcounts cb = [(Ledger_row, n0)] @ l \<and> (\<forall>x \<in> set l. fst x = Old_product_stock)
             \<and> ((Old_product_stock, 0) \<in> set l \<longrightarrow> r2 = Some (HTTPException 409 Old_stock_modified))"
          using rs rca purchase_restore_facts(3) [of workspace_id user_id oname oq ca r2 cb]
          by (auto split: if_splits)
      qed
      then obtain l where l: "rowcounts cb = [(Ledger_row, n0)] @ l"
         "\<forall>x \<in> set l. fst x = Old_product_stock"
         "(Old_product_stock, 0) \<in> set l \<longrightarrow> r2 = Some (HTTPException 409 Old_stock_modified)"
        by blast
      have nops: "(Product_stock, k) \<notin> set (rowcounts cb)" for k
        using l by auto
      show ?thesis
      proof (cases r2)
        case (Some ex)
        then have "res = Some ex" "c1 = cb"
          using w u rs changed \<open>\<not> no_purchase_fields d\<close>
          by (simp_all add: update_purchase_writes_def Let_def)
        then show ?thesis using l fb Some nops by auto
      next
        case None
        let ?ns = "if pc then p_stock np + nq else p_stock np + (nq - oq)"
        have nozero: "(Old_product_stock, 0) \<notin> set (rowcounts cb)"
          using l None by auto
        show ?thesis
        proof (cases "?ns < 0")
          case True
          then have "res = Some (HTTPException 400 Insufficient_stock)" "c1 = cb"
            using w u rs changed None \<open>\<not> no_purchase_fields d\<close>
            by (simp_all add: update_purchase_writes_def Let_def)
          then show ?thesis using nozero nops by auto
        next
          case False
          obtain m cc where f: "update_products_stock Product_stock
                                  (stock_where (p_id np) None user_id (p_version np)) ?ns cb = (m, cc)"
            by (cases "update_products_stock Product_stock
                         (stock_where (p_id np) None user_id (p_version np)) ?ns cb")
          note ff = update_products_stock_facts [OF f]
          have r: "res = (if m = 0 then Some (HTTPException 409 Stock_modified) else None)" "c1 = cc"
            using w u rs changed None False f \<open>\<not> no_purchase_fields d\<close>
            by (auto simp: update_purchase_writes_def Let_def split: if_splits)
          have g1: ?goal1
            using r ff fb nozero nops by auto
          have g2: ?goal2
          proof
            assume "(Product_stock, n) \<in> set (rowcounts c1)"
            then have "n = m" using r ff nops by auto
            then show "\<exists>xs. map ?key xs = map ?key (products (other (working c)))
                  \<and> n = length (filter (stock_where (p_id np) None user_id (p_version np)) xs)"
              using ff(3) fb(2) by blast
          qed
          have g3: ?goal3
            using r ff nops by auto
          show ?thesis using g1 g2 g3 by blast
        qed
      qed
    qed
  qed
  then show "(Old_product_stock, 0) \<in> set (rowcounts c1) \<or> (Product_stock, 0) \<in> set (rowcounts c1)
           \<Longrightarrow> (res = Some (HTTPException 409 Old_stock_modified)
                \<or> res = Some (HTTPException 409 Stock_modified))
               \<and> committed c1 = other (committed c)"
    and "(Product_stock, n) \<in> set (rowcounts c1)
           \<Longrightarrow> \<exists>xs. map (\<lambda>r. (p_id r, p_userId r)) xs =
                       map (\<lambda>r. (p_id r, p_userId r)) (products (other (working c)))
                  \<and> n = length (filter (stock_where (p_id np) None user_id (p_version np)) xs)"
    and "(Product_stock, 0) \<in> set (rowcounts c1)
           \<Longrightarrow> res = Some (HTTPException 409 Stock_modified)"
    by blast+
qed

lemma rollback_facts:
  "rowcounts (rollback c) = rowcounts c"
  "committed (rollback c) = committed c"
  "working (rollback c) = committed c"
  "rollback (rollback c) = rollback c"
  by (simp_all add: rollback_def)

lemma commit_facts:
  "rowcounts (commit c) = rowcounts c"
  "committed (commit c) = working c"
  "working (commit c) = working c"
  by (simp_all add: commit_def)

lemma update_purchase_shape:
  "(\<exists>e. update_purchase env workspace_id user_id purchase_id d other c = (Inl e, rollback c))
   \<or> (\<exists>row np res c1.
         select_purchase (working c) workspace_id user_id purchase_id = Some row
       \<and> select_product_by_name (working c) workspace_id user_id
           (if truthy (ud_productName d) \<and> ud_productName d \<noteq> Some (pu_productName row)
            then (case ud_productName d of Some n \<Rightarrow> n | None \<Rightarrow> pu_productName row)
            else pu_productName row) = Some np
       \<and> update_purchase_writes workspace_id user_id purchase_id d other
           (truthy (ud_productName d) \<and> ud_productName d \<noteq> Some (pu_productName row))
           (pu_productName row) (pu_quantity row)
           (case ud_quantity d of Some q \<Rightarrow> q | None \<Rightarrow> pu_quantity row) np c = (res, c1)
       \<and> rowcounts (snd (update_purchase env workspace_id user_id purchase_id d other c)) = rowcounts c1
       \<and> (case res of
             Some e \<Rightarrow> update_purchase env workspace_id user_id purchase_id d other c
                        = (Inl e, rollback c1)
           | None \<Rightarrow> committed (snd (update_purchase env workspace_id user_id purchase_id d other c))
                        = working c1
                    \<and> working (snd (update_purchase env workspace_id user_id purchase_id d other c))
                        = working c1))"
proof (cases "workspace_gate env workspace_id user_id Update")
  case (Some e)
  then show ?thesis
    by (simp add: update_purchase_def get_connection_def update_purchase_body_def)
next
  case gate: None
  show ?thesis
  proof (cases "select_purchase (working c) workspace_id user_id purchase_id")
    case None
    then show ?thesis using gate
      by (simp add: update_purchase_def get_connection_def update_purchase_body_def)
  next
    case (Some row)
    let ?pc = "truthy (ud_productName d) \<and> ud_productName d \<noteq> Some (pu_productName row)"
    let ?name = "if ?pc then (case ud_productName d of Some n \<Rightarrow> n | None \<Rightarrow> pu_productName row)
                 else pu_productName row"
    let ?nq = "case ud_quantity d of Some q \<Rightarrow> q | None \<Rightarrow> pu_quantity row"
    show ?thesis
    proof (cases "select_product_by_name (working c) workspace_id user_id ?name")
      case None
      then show ?thesis using gate Some
        by (simp add: update_purchase_def get_connection_def update_purchase_body_def Let_def)
    next
      case np: (Some np)
      show ?thesis
      proof (cases "update_purchase_checks workspace_id user_id d ?pc (pu_productName row)
                      (pu_quantity row) ?nq np (working c)")
        case (Some e)
        then show ?thesis using gate \<open>select_purchase (working c) workspace_id user_id purchase_id = Some row\<close> np
          by (simp add: update_purchase_def get_connection_def update_purchase_body_def Let_def)
      next
        case chk: None
        obtain res c1 where w: "update_purchase_writes workspace_id user_id purchase_id d other
           ?pc (pu_productName row) (pu_quantity row) ?nq np c = (res, c1)"
          by (cases "update_purchase_writes workspace_id user_id purchase_id d other
           ?pc (pu_productName row) (pu_quantity row) ?nq np c")
        have "rowcounts (snd (update_purchase env workspace_id user_id purchase_id d other c)) = rowcounts c1
          \<and> (case res of
             Some e \<Rightarrow> update_purchase env workspace_id user_id purchase_id d other c
                        = (Inl e, rollback c1)
           | None \<Rightarrow> committed (snd (update_purchase env workspace_id user_id purchase_id d other c))
                        = working c1
                    \<and> working (snd (update_purchase env workspace_id user_id purchase_id d other c))
                        = working c1)"
          using gate \<open>select_purchase (working c) workspace_id user_id purchase_id = Some row\<close> np chk w
          by (auto simp: update_purchase_def get_connection_def update_purchase_body_def Let_def
                rollback_facts commit_facts split: option.splits)
        then show ?thesis
          using \<open>select_purchase (working c) workspace_id user_id purchase_id = Some row\<close> np w
          by blast
      qed
    qed
  qed
qed

lemma foreign_owner_matches_nothing:
  assumes keys: "map (\<lambda>r. (p_id r, p_userId r)) xs = map (\<lambda>r. (p_id r, p_userId r)) ys"
      and dist: "distinct (map p_id ys)"
      and mem: "pr \<in> set ys"
      and own: "p_userId pr \<noteq> user_id"
  shows "filter (stock_where (p_id pr) None user_id v) xs = []"
proof -
  have "\<not> stock_where (p_id pr) None user_id v r" if r: "r \<in> set xs" for r
  proof
    assume sw: "stock_where (p_id pr) None user_id v r"
    have "(p_id r, p_userId r) \<in> set (map (\<lambda>r. (p_id r, p_userId r)) xs)"
      using r by (simp add: image_iff) blast
    then have "(p_id r, p_userId r) \<in> set (map (\<lambda>r. (p_id r, p_userId r)) ys)"
      using keys by simp
    then obtain r' where r': "r' \<in> set ys" "p_id r' = p_id r" "p_userId r' = p_userId r"
      by auto
    have "r' = pr"
      using dist r' mem sw
      by (metis (no_types, lifting) distinct_map inj_on_def stock_where_def)
    then show False using own r' sw by (simp add: stock_where_def scope_def)
  qed
  then show ?thesis by (simp add: filter_empty_conv)
qed

text \<open>
  Claim C9 (the last stock write of \<^verbatim>\<open>update_purchase\<close> filters on the caller's user id).
  The request carries a workspace id, the product it resolves to was entered by another
  user, product ids are unique and the handler runs alone on a fresh handle. Whenever the
  last stock write is executed, it matches no row, the handler answers 409 and the
  database is as it was before the request.
\<close>

theorem purchase_stock_write_by_user_id:
  assumes ws: "workspace_id = Some w"
      and row: "select_purchase (working c) workspace_id user_id purchase_id = Some row"
      and pr: "select_product_by_name (working c) workspace_id user_id
                   (if truthy (ud_productName d) \<and> ud_productName d \<noteq> Some (pu_productName row)
                    then (case ud_productName d of Some n \<Rightarrow> n | None \<Rightarrow> pu_productName row)
                    else pu_productName row) = Some pr"
      and own: "p_userId pr \<noteq> user_id"
      and dist: "distinct (map p_id (products (working c)))"
      and clean: "working c = committed c" "rowcounts c = []"
      and reached: "(Product_stock, n) \<in>
                      set (rowcounts (snd (update_purchase env workspace_id user_id purchase_id d id c)))"
  shows "n = 0
         \<and> fst (update_purchase env workspace_id user_id purchase_id d id c) =
             Inl (HTTPException 409 Stock_modified)
         \<and> committed (snd (update_purchase env workspace_id user_id purchase_id d id c)) = committed c
         \<and> working (snd (update_purchase env workspace_id user_id purchase_id d id c)) = committed c"
proof -
  let ?R = "update_purchase env workspace_id user_id purchase_id d id c"
  from update_purchase_shape [of env workspace_id user_id purchase_id d id c]
  show ?thesis
  proof (elim disjE exE conjE)
    fix e assume "?R = (Inl e, rollback c)"
    then have "rowcounts (snd ?R) = []" using clean by (simp add: rollback_facts)
    then show ?thesis using reached by simp
  next
    fix row' np res c1
    assume a: "select_purchase (working c) workspace_id user_id purchase_id = Some row'"
       "select_product_by_name (working c) workspace_id user_id
           (if truthy (ud_productName d) \<and> ud_productName d \<noteq> Some (pu_productName row')
            then (case ud_productName d of Some n \<Rightarrow> n | None \<Rightarrow> pu_productName row')
            else pu_productName row') = Some np"
       "update_purchase_writes workspace_id user_id purchase_id d id
           (truthy (ud_productName d) \<and> ud_productName d \<noteq> Some (pu_productName row'))
           (pu_productName row') (pu_quantity row')
           (case ud_quantity d of Some q \<Rightarrow> q | None \<Rightarrow> pu_quantity row') np c = (res, c1)"
       "rowcounts (snd ?R) = rowcounts c1"
       "case res of
             Some e \<Rightarrow> ?R = (Inl e, rollback c1)
           | None \<Rightarrow> committed (snd ?R) = working c1 \<and> working (snd ?R) = working c1"
    have rr: "row' = row" using a(1) row by simp
    have np: "np = pr" using a(2) pr unfolding rr by simp
    note f = update_purchase_writes_facts [OF a(3) clean(2)]
    have inlog: "(Product_stock, n) \<in> set (rowcounts c1)" using reached a(4) by simp
    from f(2) [OF inlog] obtain xs where xs:
      "map (\<lambda>r. (p_id r, p_userId r)) xs = map (\<lambda>r. (p_id r, p_userId r)) (products (working c))"
      "n = length (filter (stock_where (p_id np) None user_id (p_version np)) xs)"
      by auto
    have mem: "pr \<in> set (products (working c))"
      using pr by (auto simp: select_product_by_name_def find_Some_iff)
    have n0: "n = 0"
      using xs foreign_owner_matches_nothing [OF xs(1) dist mem own] np by simp
    have res: "res = Some (HTTPException 409 Stock_modified)"
      using f(3) inlog n0 by simp
    have cm: "committed c1 = committed c"
      using f(1) inlog n0 by simp
    have "?R = (Inl (HTTPException 409 Stock_modified), rollback c1)"
      using a(5) res by simp
    then show ?thesis using n0 cm by (simp add: rollback_facts)
  qed
qed

text \<open>
  User 8, an editor of workspace 5, raises the quantity of a purchase of corn that user 7
  entered: the purchase row is written, the stock write matches nothing, and the request
  ends in a 409 with nothing changed.
\<close>

lemma purchase_quantity_run:
  "update_purchase env0 (Some 5) 8 1 (purchase_quantity 5) id
     (handle (db_of [shared_item 2 ''corn'' 4 1] [shared_purchase ''corn'' 3] []) 0) =
   (Inl (HTTPException 409 Stock_modified),
    \<lparr>committed = db_of [shared_item 2 ''corn'' 4 1] [shared_purchase ''corn'' 3] [],
     working = db_of [shared_item 2 ''corn'' 4 1] [shared_purchase ''corn'' 3] [],
     total_changes = 1,
     rowcounts = [(Ledger_row, 1), (Product_stock, 0)]\<rparr>)"
  by (simp add: update_purchase_def get_connection_def update_purchase_body_def
        update_purchase_checks_def update_purchase_writes_def purchase_restore_old_product_def
        update_purchases_row_def set_purchase_fields_def no_purchase_fields_def
        workspace_gate_def require_server_storage_def check_workspace_permission_def env0_def
        select_purchase_def select_product_by_name_def scope_def truthy_def
        shared_item_def shared_purchase_def purchase_quantity_def handle_def db_of_def stock_where_def
        update_products_stock_def other_writers_def commit_def rollback_def Let_def)

theorem purchase_stock_write_by_user_id_witness:
  "(Product_stock, 0) \<in> set (rowcounts (snd (update_purchase env0 (Some 5) 8 1 (purchase_quantity 5) id
        (handle (db_of [shared_item 2 ''corn'' 4 1] [shared_purchase ''corn'' 3] []) 0))))
   \<and> fst (update_purchase env0 (Some 5) 8 1 (purchase_quantity 5) id
        (handle (db_of [shared_item 2 ''corn'' 4 1] [shared_purchase ''corn'' 3] []) 0)) =
       Inl (HTTPException 409 Stock_modified)
   \<and> committed (snd (update_purchase env0 (Some 5) 8 1 (purchase_quantity 5) id
        (handle (db_of [shared_item 2 ''corn'' 4 1] [shared_purchase ''corn'' 3] []) 0))) =
       db_of [shared_item 2 ''corn'' 4 1] [shared_purchase ''corn'' 3] []"
proof -
  let ?c = "handle (db_of [shared_item 2 ''corn'' 4 1] [shared_purchase ''corn'' 3] []) 0"
  have row: "select_purchase (working ?c) (Some 5) 8 1 = Some (shared_purchase ''corn'' 3)"
    by (simp add: select_purchase_def scope_def shared_purchase_def handle_def db_of_def)
  have pr: "select_product_by_name (working ?c) (Some 5) 8
              (if truthy (ud_productName (purchase_quantity 5))
                  \<and> ud_productName (purchase_quantity 5)
                      \<noteq> Some (pu_productName (shared_purchase ''corn'' 3))
               then (case ud_productName (purchase_quantity 5) of
                       Some n \<Rightarrow> n | None \<Rightarrow> pu_productName (shared_purchase ''corn'' 3))
               else pu_productName (shared_purchase ''corn'' 3)) = Some (shared_item 2 ''corn'' 4 1)"
    by (simp add: select_product_by_name_def scope_def shared_purchase_def shared_item_def
          purchase_quantity_def truthy_def handle_def db_of_def)
  have own: "p_userId (shared_item 2 ''corn'' 4 1) \<noteq> 8"
    by (simp add: shared_item_def)
  have dist: "distinct (map p_id (products (working ?c)))"
    by (simp add: handle_def db_of_def)
  have clean: "working ?c = committed ?c" "rowcounts ?c = []"
    by (simp_all add: handle_def)
  have reached: "(Product_stock, 0) \<in>
       set (rowcounts (snd (update_purchase env0 (Some 5) 8 1 (purchase_quantity 5) id ?c)))"
    by (simp add: purchase_quantity_run)
  from purchase_stock_write_by_user_id [OF refl row pr own dist clean reached] reached
  show ?thesis by (simp add: handle_def)
qed

lemma sale_restore_facts:
  assumes "sale_restore_old_product workspace_id user_id name q c = (res, c1)"
  shows "committed c1 = committed c"
    and "\<exists>l. rowcounts c1 = rowcounts c @ l \<and> (\<forall>x \<in> set l. fst x = Old_product_stock)
           \<and> ((Old_product_stock, 0) \<in> set l \<longrightarrow> res = Some (HTTPException 409 Old_stock_modified))"
  using assms
  by (auto simp: sale_restore_old_product_def update_products_stock_def Let_def
           split: option.splits if_splits)

lemma update_sales_row_facts:
  assumes "update_sales_row sale_id workspace_id user_id d c = (n, c1)"
  shows "rowcounts c1 = rowcounts c @ [(Ledger_row, n)]"
    and "committed c1 = committed c"
  using assms by (auto simp: update_sales_row_def Let_def)

lemma update_sale_writes_facts:
  assumes w: "update_sale_writes workspace_id user_id sale_id d other pc oname oq nq np c
                = (res, c1)"
      and e: "rowcounts c = []"
      and z: "(Old_product_stock, 0) \<in> set (rowcounts c1) \<or> (Product_stock, 0) \<in> set (rowcounts c1)"
  shows "(res = Some (HTTPException 409 Old_stock_modified)
           \<or> res = Some (HTTPException 409 Stock_modified))
         \<and> committed c1 = other (committed c)"
proof (cases "no_sale_fields d")
  case True
  then show ?thesis using w e z by (simp add: update_sale_writes_def)
next
  case False
  obtain n0 ca where u: "update_sales_row sale_id workspace_id user_id d (other_writers other c)
                           = (n0, ca)"
    by (cases "update_sales_row sale_id workspace_id user_id d (other_writers other c)")
  note fa = update_sales_row_facts [OF u]
  have rca: "rowcounts ca = [(Ledger_row, n0)]"
    and cca: "committed ca = other (committed c)"
    using fa e by (simp_all add: other_writers_facts)
  show ?thesis
  proof (cases "pc \<or> oq - nq \<noteq> 0")
    case False
    then have "res = None" "c1 = ca"
      using w u \<open>\<not> no_sale_fields d\<close>
      by (simp_all add: update_sale_writes_def Let_def)
    then show ?thesis using rca z by simp
  next
    case changed: True
    obtain r2 cb where rs: "(if pc then sale_restore_old_product workspace_id user_id oname oq ca
                             else (None, ca)) = (r2, cb)"
      by (cases "if pc then sale_restore_old_product workspace_id user_id oname oq ca
                 else (None, ca)")
    have fb1: "committed cb = other (committed c)"
      using rs cca sale_restore_facts(1) [of workspace_id user_id oname oq ca r2 cb]
      by (auto split: if_splits)
    have "\<exists>l. rowcounts cb = [(Ledger_row, n0)] @ l \<and> (\<forall>x \<in> set l. fst x = Old_product_stock)
           \<and> ((Old_product_stock, 0) \<in> set l \<longrightarrow> r2 = Some (HTTPException 409 Old_stock_modified))"
      using rs rca sale_restore_facts(2) [of workspace_id user_id oname oq ca r2 cb]
      by (auto split: if_splits)
    then obtain l where l: "rowcounts cb = [(Ledger_row, n0)] @ l"
       "\<forall>x \<in> set l. fst x = Old_product_stock"
       "(Old_product_stock, 0) \<in> set l \<longrightarrow> r2 = Some (HTTPException 409 Old_stock_modified)"
      by blast
    have nops: "(Product_stock, k) \<notin> set (rowcounts cb)" for k
      using l by auto
    show ?thesis
    proof (cases r2)
      case (Some ex)
      then have "res = Some ex" "c1 = cb"
        using w u rs changed \<open>\<not> no_sale_fields d\<close>
        by (simp_all add: update_sale_writes_def Let_def)
      then show ?thesis using l fb1 Some nops z by auto
    next
      case None
      let ?ns = "if pc then p_stock np - nq else p_stock np + (oq - nq)"
      have nozero: "(Old_product_stock, 0) \<notin> set (rowcounts cb)"
        using l None by auto
      show ?thesis
      proof (cases "?ns < 0")
        case True
        then have "res = Some (HTTPException 400 Insufficient_stock)" "c1 = cb"
          using w u rs changed None \<open>\<not> no_sale_fields d\<close>
          by (simp_all add: update_sale_writes_def Let_def)
        then show ?thesis using nozero nops z by auto
      next
        case False
        obtain m cc where f: "update_products_stock Product_stock
                                (stock_where (p_id np) workspace_id user_id (p_version np)) ?ns cb
                              = (m, cc)"
          by (cases "update_products_stock Product_stock
                       (stock_where (p_id np) workspace_id user_id (p_version np)) ?ns cb")
        note ff = update_products_stock_facts [OF f]
        have r: "res = (if m = 0 then Some (HTTPException 409 Stock_modified) else None)" "c1 = cc"
          using w u rs changed None False f \<open>\<not> no_sale_fields d\<close>
          by (auto simp: update_sale_writes_def Let_def split: if_splits)
        show ?thesis
          using r ff fb1 nozero nops z by auto
      qed
    qed
  qed
qed

lemma update_sale_shape:
  "(\<exists>e. update_sale env workspace_id user_id sale_id d other c = (Inl e, rollback c))
   \<or> (\<exists>row np res c1.
         select_sale (working c) workspace_id user_id sale_id = Some row
       \<and> update_sale_writes workspace_id user_id sale_id d other
           (truthy (sd_productName d) \<and> sd_productName d \<noteq> Some (sa_productName row))
           (sa_productName row) (sa_quantity row)
           (case sd_quantity d of Some q \<Rightarrow> q | None \<Rightarrow> sa_quantity row) np c = (res, c1)
       \<and> rowcounts (snd (update_sale env workspace_id user_id sale_id d other c)) = rowcounts c1
       \<and> (case res of
             Some e \<Rightarrow> update_sale env workspace_id user_id sale_id d other c = (Inl e, rollback c1)
           | None \<Rightarrow> committed (snd (update_sale env workspace_id user_id sale_id d other c))
                        = working c1
                    \<and> working (snd (update_sale env workspace_id user_id sale_id d other c))
                        = working c1))"
proof (cases "workspace_gate env workspace_id user_id Update")
  case (Some e)
  then show ?thesis
    by (simp add: update_sale_def get_connection_def update_sale_body_def)
next
  case gate: None
  show ?thesis
  proof (cases "select_sale (working c) workspace_id user_id sale_id")
    case None
    then show ?thesis using gate
      by (simp add: update_sale_def get_connection_def update_sale_body_def)
  next
    case row: (Some row)
    let ?pc = "truthy (sd_productName d) \<and> sd_productName d \<noteq> Some (sa_productName row)"
    let ?name = "if ?pc then (case sd_productName d of Some n \<Rightarrow> n | None \<Rightarrow> sa_productName row)
                 else sa_productName row"
    let ?nq = "case sd_quantity d of Some q \<Rightarrow> q | None \<Rightarrow> sa_quantity row"
    show ?thesis
    proof (cases "select_product_by_name (working c) workspace_id user_id ?name")
      case None
      then show ?thesis using gate row
        by (simp add: update_sale_def get_connection_def update_sale_body_def Let_def)
    next
      case np: (Some np)
      show ?thesis
      proof (cases "update_sale_checks workspace_id user_id d ?pc (sa_quantity row) ?nq np (working c)")
        case (Some e)
        then show ?thesis using gate row np
          by (simp add: update_sale_def get_connection_def update_sale_body_def Let_def)
      next
        case chk: None
        obtain res c1 where w: "update_sale_writes workspace_id user_id sale_id d other
           ?pc (sa_productName row) (sa_quantity row) ?nq np c = (res, c1)"
          by (cases "update_sale_writes workspace_id user_id sale_id d other
           ?pc (sa_productName row) (sa_quantity row) ?nq np c")
        have "rowcounts (snd (update_sale env workspace_id user_id sale_id d other c)) = rowcounts c1
          \<and> (case res of
             Some e \<Rightarrow> update_sale env workspace_id user_id sale_id d other c = (Inl e, rollback c1)
           | None \<Rightarrow> committed (snd (update_sale env workspace_id user_id sale_id d other c))
                        = working c1
                    \<and> working (snd (update_sale env workspace_id user_id sale_id d other c))
                        = working c1)"
          using gate row np chk w
          by (auto simp: update_sale_def get_connection_def update_sale_body_def Let_def
                rollback_facts commit_facts split: option.splits)
        then show ?thesis using row w by blast
      qed
    qed
  qed
qed

lemma update_purchase_zero_rows:
  assumes e: "rowcounts c = []"
      and z: "(Old_product_stock, 0) \<in> set (rowcounts (snd (update_purchase env workspace_id user_id purchase_id d other c)))
            \<or> (Product_stock, 0) \<in> set (rowcounts (snd (update_purchase env workspace_id user_id purchase_id d other c)))"
  shows "(fst (update_purchase env workspace_id user_id purchase_id d other c) = Inl (HTTPException 409 Old_stock_modified)
          \<or> fst (update_purchase env workspace_id user_id purchase_id d other c) = Inl (HTTPException 409 Stock_modified))
       \<and> committed (snd (update_purchase env workspace_id user_id purchase_id d other c)) = other (committed c)
       \<and> working (snd (update_purchase env workspace_id user_id purchase_id d other c)) = other (committed c)"
proof -
  let ?R = "update_purchase env workspace_id user_id purchase_id d other c"
  from update_purchase_shape [of env workspace_id user_id purchase_id d other c]
  show ?thesis
  proof (elim disjE exE conjE)
    fix ex assume "?R = (Inl ex, rollback c)"
    then have "rowcounts (snd ?R) = []" using e by (simp add: rollback_facts)
    then show ?thesis using z by simp
  next
    fix row np res c1
    assume a: "update_purchase_writes workspace_id user_id purchase_id d other
           (truthy (ud_productName d) \<and> ud_productName d \<noteq> Some (pu_productName row))
           (pu_productName row) (pu_quantity row)
           (case ud_quantity d of Some q \<Rightarrow> q | None \<Rightarrow> pu_quantity row) np c = (res, c1)"
       "rowcounts (snd ?R) = rowcounts c1"
       "case res of
             Some e \<Rightarrow> ?R = (Inl e, rollback c1)
           | None \<Rightarrow> committed (snd ?R) = working c1 \<and> working (snd ?R) = working c1"
    have z1: "(Old_product_stock, 0) \<in> set (rowcounts c1) \<or> (Product_stock, 0) \<in> set (rowcounts c1)"
      using z a(2) by simp
    from update_purchase_writes_facts(1) [OF a(1) e z1] a(3)
    show ?thesis by (auto simp: rollback_facts)
  qed
qed

lemma update_sale_zero_rows:
  assumes e: "rowcounts c = []"
      and z: "(Old_product_stock, 0) \<in> set (rowcounts (snd (update_sale env workspace_id user_id sale_id d other c)))
            \<or> (Product_stock, 0) \<in> set (rowcounts (snd (update_sale env workspace_id user_id sale_id d other c)))"
  shows "(fst (update_sale env workspace_id user_id sale_id d other c) = Inl (HTTPException 409 Old_stock_modified)
          \<or> fst (update_sale env workspace_id user_id sale_id d other c) = Inl (HTTPException 409 Stock_modified))
       \<and> committed (snd (update_sale env workspace_id user_id sale_id d other c)) = other (committed c)
       \<and> working (snd (update_sale env workspace_id user_id sale_id d other c)) = other (committed c)"
proof -
  let ?R = "update_sale env workspace_id user_id sale_id d other c"
  from update_sale_shape [of env workspace_id user_id sale_id d other c]
  show ?thesis
  proof (elim disjE exE conjE)
    fix ex assume "?R = (Inl ex, rollback c)"
    then have "rowcounts (snd ?R) = []" using e by (simp add: rollback_facts)
    then show ?thesis using z by simp
  next
    fix row np res c1
    assume a: "update_sale_writes workspace_id user_id sale_id d other
           (truthy (sd_productName d) \<and> sd_productName d \<noteq> Some (sa_productName row))
           (sa_productName row) (sa_quantity row)
           (case sd_quantity d of Some q \<Rightarrow> q | None \<Rightarrow> sa_quantity row) np c = (res, c1)"
       "rowcounts (snd ?R) = rowcounts c1"
       "case res of
             Some e \<Rightarrow> ?R = (Inl e, rollback c1)
           | None \<Rightarrow> committed (snd ?R) = working c1 \<and> working (snd ?R) = working c1"
    have z1: "(Old_product_stock, 0) \<in> set (rowcounts c1) \<or> (Product_stock, 0) \<in> set (rowcounts c1)"
      using z a(2) by simp
    from update_sale_writes_facts [OF a(1) e z1] a(3)
    show ?thesis by (auto simp: rollback_facts)
  qed
qed

text \<open>
  Claim C3 (re-association is atomic). For \<^verbatim>\<open>update_purchase\<close> and for \<^verbatim>\<open>update_sale\<close>, on a
  handle whose record of row counts starts empty: if the write that reverses the old
  product or the write that applies to the new product reports zero rows, the handler
  answers 409 and rolls back, so the committed database and the handle's view are what
  the other handles left (with \<open>other = id\<close>: what they were before the request). The
  purchase row or sale row, the old product and the new product are all part of that
  state.
\<close>

theorem reassociation_rolls_back:
  "(rowcounts c = []
    \<and> ((Old_product_stock, 0) \<in> set (rowcounts (snd (update_purchase env workspace_id user_id purchase_id pd other c)))
       \<or> (Product_stock, 0) \<in> set (rowcounts (snd (update_purchase env workspace_id user_id purchase_id pd other c))))
    \<longrightarrow> (fst (update_purchase env workspace_id user_id purchase_id pd other c) = Inl (HTTPException 409 Old_stock_modified)
         \<or> fst (update_purchase env workspace_id user_id purchase_id pd other c) = Inl (HTTPException 409 Stock_modified))
        \<and> committed (snd (update_purchase env workspace_id user_id purchase_id pd other c)) = other (committed c)
        \<and> working (snd (update_purchase env workspace_id user_id purchase_id pd other c)) = other (committed c))
   \<and> (rowcounts c = []
    \<and> ((Old_product_stock, 0) \<in> set (rowcounts (snd (update_sale env workspace_id user_id sale_id sd other c)))
       \<or> (Product_stock, 0) \<in> set (rowcounts (snd (update_sale env workspace_id user_id sale_id sd other c))))
    \<longrightarrow> (fst (update_sale env workspace_id user_id sale_id sd other c) = Inl (HTTPException 409 Old_stock_modified)
         \<or> fst (update_sale env workspace_id user_id sale_id sd other c) = Inl (HTTPException 409 Stock_modified))
        \<and> committed (snd (update_sale env workspace_id user_id sale_id sd other c)) = other (committed c)
        \<and> working (snd (update_sale env workspace_id user_id sale_id sd other c)) = other (committed c))"
  using update_purchase_zero_rows [of c env workspace_id user_id purchase_id pd other]
        update_sale_zero_rows [of c env workspace_id user_id sale_id sd other]
  by blast

text \<open>
  A purchase of 3 rice is moved to corn by user 8 in workspace 5: rice is written back to 7
  under its version, then the write on corn, filtered by the caller's user id, matches
  nothing. A sale of 2 rice (rice at 5, version 2) is moved to corn while another handle
  sells corn: rice is set to 7, version 3, then the write on corn misses its version. Both
  requests end in a 409; rice, corn and the ledger row are as before the request (corn as
  the other handle left it).
\<close>

lemma purchase_reassociation_run:
  "update_purchase env0 (Some 5) 8 1 (purchase_to ''corn'') id
     (handle (db_of [shared_item 1 ''rice'' 10 2, shared_item 2 ''corn'' 4 1]
                [shared_purchase ''rice'' 3] []) 0) =
   (Inl (HTTPException 409 Stock_modified),
    \<lparr>committed = db_of [shared_item 1 ''rice'' 10 2, shared_item 2 ''corn'' 4 1]
                   [shared_purchase ''rice'' 3] [],
     working = db_of [shared_item 1 ''rice'' 10 2, shared_item 2 ''corn'' 4 1]
                   [shared_purchase ''rice'' 3] [],
     total_changes = 2,
     rowcounts = [(Ledger_row, 1), (Old_product_stock, 1), (Product_stock, 0)]\<rparr>)"
  by (simp add: update_purchase_def get_connection_def update_purchase_body_def
        update_purchase_checks_def update_purchase_writes_def purchase_restore_old_product_def
        update_purchases_row_def set_purchase_fields_def no_purchase_fields_def
        workspace_gate_def require_server_storage_def check_workspace_permission_def env0_def
        select_purchase_def select_product_by_name_def scope_def truthy_def
        shared_item_def shared_purchase_def purchase_to_def handle_def db_of_def stock_where_def
        update_products_stock_def other_writers_def commit_def rollback_def Let_def)

lemma sale_reassociation_run:
  "update_sale env0 (Some 5) 7 1 (sale_to ''corn'') corn_sold
     (handle (db_of [shared_item 1 ''rice'' 5 2, shared_item 2 ''corn'' 9 1] []
                [shared_sale ''rice'' 2]) 0) =
   (Inl (HTTPException 409 Stock_modified),
    \<lparr>committed = db_of [shared_item 1 ''rice'' 5 2, shared_item 2 ''corn'' 8 2] []
                   [shared_sale ''rice'' 2],
     working = db_of [shared_item 1 ''rice'' 5 2, shared_item 2 ''corn'' 8 2] []
                   [shared_sale ''rice'' 2],
     total_changes = 2,
     rowcounts = [(Ledger_row, 1), (Old_product_stock, 1), (Product_stock, 0)]\<rparr>)"
  by (simp add: update_sale_def get_connection_def update_sale_body_def
        update_sale_checks_def update_sale_writes_def sale_restore_old_product_def
        update_sales_row_def set_sale_fields_def no_sale_fields_def
        workspace_gate_def require_server_storage_def check_workspace_permission_def env0_def
        select_sale_def select_product_by_name_def scope_def truthy_def corn_sold_def
        shared_item_def shared_sale_def sale_to_def handle_def db_of_def stock_where_def
        update_products_stock_def other_writers_def commit_def rollback_def Let_def)

theorem reassociation_rolls_back_witness:
  "fst (update_purchase env0 (Some 5) 8 1 (purchase_to ''corn'') id
          (handle (db_of [shared_item 1 ''rice'' 10 2, shared_item 2 ''corn'' 4 1]
                     [shared_purchase ''rice'' 3] []) 0)) = Inl (HTTPException 409 Stock_modified)
   \<and> committed (snd (update_purchase env0 (Some 5) 8 1 (purchase_to ''corn'') id
          (handle (db_of [shared_item 1 ''rice'' 10 2, shared_item 2 ''corn'' 4 1]
                     [shared_purchase ''rice'' 3] []) 0))) =
       db_of [shared_item 1 ''rice'' 10 2, shared_item 2 ''corn'' 4 1] [shared_purchase ''rice'' 3] []
   \<and> fst (update_sale env0 (Some 5) 7 1 (sale_to ''corn'') corn_sold
          (handle (db_of [shared_item 1 ''rice'' 5 2, shared_item 2 ''corn'' 9 1] []
                     [shared_sale ''rice'' 2]) 0)) = Inl (HTTPException 409 Stock_modified)
   \<and> committed (snd (update_sale env0 (Some 5) 7 1 (sale_to ''corn'') corn_sold
          (handle (db_of [shared_item 1 ''rice'' 5 2, shared_item 2 ''corn'' 9 1] []
                     [shared_sale ''rice'' 2]) 0))) =
       db_of [shared_item 1 ''rice'' 5 2, shared_item 2 ''corn'' 8 2] [] [shared_sale ''rice'' 2]"
proof -
  let ?cp = "handle (db_of [shared_item 1 ''rice'' 10 2, shared_item 2 ''corn'' 4 1]
                     [shared_purchase ''rice'' 3] []) 0"
  let ?cs = "handle (db_of [shared_item 1 ''rice'' 5 2, shared_item 2 ''corn'' 9 1] []
                     [shared_sale ''rice'' 2]) 0"
  have zp: "rowcounts ?cp = [] \<and>
     ((Old_product_stock, 0) \<in> set (rowcounts (snd (update_purchase env0 (Some 5) 8 1 (purchase_to ''corn'') id ?cp)))
      \<or> (Product_stock, 0) \<in> set (rowcounts (snd (update_purchase env0 (Some 5) 8 1 (purchase_to ''corn'') id ?cp))))"
    by (simp add: purchase_reassociation_run) (simp add: handle_def)
  have zs: "rowcounts ?cs = [] \<and>
     ((Old_product_stock, 0) \<in> set (rowcounts (snd (update_sale env0 (Some 5) 7 1 (sale_to ''corn'') corn_sold ?cs)))
      \<or> (Product_stock, 0) \<in> set (rowcounts (snd (update_sale env0 (Some 5) 7 1 (sale_to ''corn'') corn_sold ?cs))))"
    by (simp add: sale_reassociation_run) (simp add: handle_def)
  have p: "committed (snd (update_purchase env0 (Some 5) 8 1 (purchase_to ''corn'') id ?cp)) = id (committed ?cp)"
    using reassociation_rolls_back [where c = ?cp and env = env0 and workspace_id = "Some 5"
        and user_id = 8 and purchase_id = 1 and pd = "purchase_to ''corn''" and other = id] zp
    by blast
  have s: "committed (snd (update_sale env0 (Some 5) 7 1 (sale_to ''corn'') corn_sold ?cs)) = corn_sold (committed ?cs)"
    using reassociation_rolls_back [where c = ?cs and env = env0 and workspace_id = "Some 5"
        and user_id = 7 and sale_id = 1 and sd = "sale_to ''corn''" and other = corn_sold] zs
    by blast
  have p1: "fst (update_purchase env0 (Some 5) 8 1 (purchase_to ''corn'') id ?cp) = Inl (HTTPException 409 Stock_modified)"
    by (simp add: purchase_reassociation_run)
  have s1: "fst (update_sale env0 (Some 5) 7 1 (sale_to ''corn'') corn_sold ?cs) = Inl (HTTPException 409 Stock_modified)"
    by (simp add: sale_reassociation_run)
  show ?thesis
    using p s p1 s1 by (simp add: handle_def db_of_def corn_sold_def)
qed

section \<open>Properties of the product update (update_product)\<close>

lemma set_product_fields_keeps:
  "p_id (set_product_fields d r) = p_id r"
  "p_userId (set_product_fields d r) = p_userId r"
  "p_workspaceId (set_product_fields d r) = p_workspaceId r"
  "p_version (set_product_fields d r) = map_option (\<lambda>v. v + 1) (p_version r)"
  "p_stock (set_product_fields d r) = (case pd_stock d of Some s \<Rightarrow> s | None \<Rightarrow> p_stock r)"
  by (simp_all add: set_product_fields_def)

text \<open>
  Claim C10 (the version check of \<^verbatim>\<open>update_product\<close>). The request either carries no
  version or carries the version of the row as it was read; its other checks pass.
  Whatever other handles commit between the read and the write, as long as the row is
  still there and the new name breaks no uniqueness constraint, the \<^verbatim>\<open>UPDATE\<close> is applied
  to the row as it then stands: the fields of the request are set (a stock as given) and
  the version is the stored version plus one. Neither a missing version in the request nor
  a version that moved after the read stops the write.
\<close>

theorem update_product_no_version_guard:
  assumes gate: "workspace_gate env workspace_id user_id Update = None"
      and sel: "select_product_by_id (working c) workspace_id user_id product_id = Some row"
      and pre: "pd_version d = None \<or> pd_version d = Some (version_or_1 (p_version row))"
      and chk: "update_product_checks user_id product_id d row (working c) = None"
      and sel': "select_product_by_id (other (working c)) workspace_id user_id product_id = Some row'"
      and uni: "\<not> unique_violation
                   (\<lambda>r. p_id r = product_id \<and> scope workspace_id user_id (p_workspaceId r) (p_userId r))
                   (pd_name d) (products (other (working c)))"
  shows "\<exists>resp c'. update_product env workspace_id user_id product_id d other c = (Inr resp, c')
           \<and> select_product_by_id (committed c') workspace_id user_id product_id =
               Some (set_product_fields d row')
           \<and> working c' = committed c'
           \<and> p_version (set_product_fields d row') = map_option (\<lambda>v. v + 1) (p_version row')
           \<and> p_stock (set_product_fields d row') =
               (case pd_stock d of Some s \<Rightarrow> s | None \<Rightarrow> p_stock row')"
proof -
  let ?wh = "\<lambda>r. p_id r = product_id \<and> scope workspace_id user_id (p_workspaceId r) (p_userId r)"
  let ?rows = "map (\<lambda>r. if ?wh r then set_product_fields d r else r) (products (other (working c)))"
  have whrow: "?wh row'" and rowin: "row' \<in> set (products (other (working c)))"
    using sel' by (auto simp: select_product_by_id_def find_Some_iff)
  have s1: "find ?wh ?rows = Some (if ?wh row' then set_product_fields d row' else row')"
    using sel' unfolding select_product_by_id_def
    by (intro find_map_upd) (auto simp: set_product_fields_keeps)
  have "find (\<lambda>r. p_id r = product_id) (products (other (working c))) \<noteq> None"
    using rowin whrow by (auto simp: find_None_iff)
  then obtain x where x: "find (\<lambda>r. p_id r = product_id) (products (other (working c))) = Some x"
    by auto
  have s2: "find (\<lambda>r. p_id r = product_id) ?rows
              = Some (if ?wh x then set_product_fields d x else x)"
    using x by (intro find_map_upd) (auto simp: set_product_fields_keeps)
  have pre': "\<not> (pd_version d \<noteq> None \<and> pd_version d \<noteq> Some (version_or_1 (p_version row)))"
    using pre by auto
  show ?thesis
    using gate sel pre' chk uni s1 s2 whrow
    by (simp add: update_product_def get_connection_def update_product_body_def
          update_products_row_def other_writers_def commit_def Let_def select_product_by_id_def
          set_product_fields_keeps)
qed

text \<open>
  Rice is read at stock 10, version 3; another handle then commits a sale that leaves it
  at 8, version 4. A request that sets the stock to 2 with version 3 passed the comparison
  at the read and is written over the sale: rice ends at 2, version 5. The same request
  without a version ends the same way.
\<close>

theorem update_product_no_version_guard_witness:
  "update_product env0 None 7 1 (set_stock 2 (Some 3)) another_sale
     (handle (db_of [rice 10 3] [] []) 0) =
   (Inr (rice 2 5),
    \<lparr>committed = db_of [rice 2 5] [] [], working = db_of [rice 2 5] [] [], total_changes = 1,
     rowcounts = [(Product_row, 1)]\<rparr>)
   \<and> select_product_by_id
        (committed (snd (update_product env0 None 7 1 (set_stock 2 None) another_sale
                           (handle (db_of [rice 10 3] [] []) 0)))) None 7 1 = Some (rice 2 5)"
proof -
  have gate: "workspace_gate env0 None 7 Update = None"
    by (simp add: workspace_gate_def)
  have sel: "select_product_by_id (working (handle (db_of [rice 10 3] [] []) 0)) None 7 1
               = Some (rice 10 3)"
    by (simp add: select_product_by_id_def scope_def rice_def handle_def db_of_def)
  have sel': "select_product_by_id (another_sale (working (handle (db_of [rice 10 3] [] []) 0)))
                None 7 1 = Some (rice 8 4)"
    by (simp add: select_product_by_id_def scope_def rice_def handle_def db_of_def another_sale_def)
  have chk: "update_product_checks 7 1 (set_stock 2 v) (rice 10 3)
               (working (handle (db_of [rice 10 3] [] []) 0)) = None" for v
    by (simp add: update_product_checks_def set_stock_def truthy_def no_product_fields_def)
  have uni: "\<not> unique_violation
                 (\<lambda>r. p_id r = 1 \<and> scope None 7 (p_workspaceId r) (p_userId r))
                 (pd_name (set_stock 2 v))
                 (products (another_sale (working (handle (db_of [rice 10 3] [] []) 0))))" for v
    by (simp add: unique_violation_def set_stock_def)
  have upd: "set_product_fields (set_stock 2 v) (rice 8 4) = rice 2 5" for v
    by (simp add: set_product_fields_def set_stock_def rice_def)
  have run: "update_product env0 None 7 1 (set_stock 2 (Some 3)) another_sale
     (handle (db_of [rice 10 3] [] []) 0) =
   (Inr (rice 2 5),
    \<lparr>committed = db_of [rice 2 5] [] [], working = db_of [rice 2 5] [] [], total_changes = 1,
     rowcounts = [(Product_row, 1)]\<rparr>)"
    by (simp add: update_product_def get_connection_def update_product_body_def
          update_product_checks_def update_products_row_def set_product_fields_def
          unique_violation_def no_product_fields_def truthy_def set_stock_def
          workspace_gate_def select_product_by_id_def scope_def rice_def handle_def db_of_def
          another_sale_def version_or_1_def other_writers_def commit_def Let_def)
  have pre: "pd_version (set_stock 2 None) = None
             \<or> pd_version (set_stock 2 None) = Some (version_or_1 (p_version (rice 10 3)))"
    by (simp add: set_stock_def)
  have "\<exists>resp c'. update_product env0 None 7 1 (set_stock 2 None) another_sale
                     (handle (db_of [rice 10 3] [] []) 0) = (Inr resp, c')
           \<and> select_product_by_id (committed c') None 7 1 = Some (rice 2 5)"
    using update_product_no_version_guard
            [where env = env0 and workspace_id = None and user_id = 7 and product_id = 1
               and c = "handle (db_of [rice 10 3] [] []) 0" and row = "rice 10 3"
               and d = "set_stock 2 None" and other = another_sale and row' = "rice 8 4"]
          gate sel pre chk [of None] sel' uni [of None]
    by (auto simp: upd)
  then show ?thesis using run by auto
qed

end
